theory Spec2Isabelle
  imports Complex_Main
begin

section \<open>Conventions of the embedding\<close>

text \<open>
  The TypeScript sources compute with \<^verbatim>\<open>number\<close> (prices, percentages, token amounts)
  and \<^verbatim>\<open>bigint\<close> (liquidity, balances). Here a \<^verbatim>\<open>number\<close> that carries a price, a
  percentage or an amount is a \<^typ>\<open>real\<close>: \<^verbatim>\<open>Math.log\<close> is \<^const>\<open>ln\<close>,
  \<^verbatim>\<open>Math.pow\<close> is \<^const>\<open>powr\<close>, \<^verbatim>\<open>Math.sqrt\<close> is \<^const>\<open>sqrt\<close>. In the tick math, the
  decision and the token split the rounding of IEEE arithmetic is left out: what is proved
  of them (alignment, bounds, which branch is taken, signs) does not rest on it. In the
  swap sizing the rounding decides the result, and every operation is rounded to the
  nearest double, as the section on double arithmetic describes. A \<^verbatim>\<open>number\<close> that
  carries a tick index, a tick spacing or a counter is an \<^typ>\<open>int\<close>, and a \<^verbatim>\<open>bigint\<close>
  is an \<^typ>\<open>int\<close>.
  \<^verbatim>\<open>Math.floor\<close>, \<^verbatim>\<open>Math.ceil\<close> and \<^verbatim>\<open>Math.round\<close> (which rounds a half upwards) are
  \<^const>\<open>floor\<close>, \<^const>\<open>ceiling\<close> and \<^const>\<open>round\<close>.

  Every \<^verbatim>\<open>throw\<close> of the sources is a value of the type \<open>error\<close>, and a function that can
  throw returns \<open>error + 'a\<close>, with \<open>Inl\<close> for the exception.

  A division by zero is 0 in HOL and an infinity or \<^verbatim>\<open>NaN\<close> in the sources. The divisors of
  the sources are the tick spacing, the current price, \<open>1 + targetRatioAtoB \<cdot> currentPrice\<close>,
  and prices of ticks and their square roots, which are positive; each theorem below that
  reaches one of the first three assumes it positive.

  What the sources do to the outside (the file system, the chain client, the clock, the
  process table) is explicit: a function takes the state of the outside and returns the
  new one, and what the outside answers is a parameter.
\<close>

datatype error =
    PriceNotPositive
      \<comment> \<open>\<^verbatim>\<open>new RangeError("price must be positive")\<close>\<close>
  | InvalidTickRange int int
      \<comment> \<open>\<^verbatim>\<open>new Error(`Invalid tick range: lower=${tickLower} >= upper=${tickUpper}`)\<close>\<close>
  | TransactionFailed string
      \<comment> \<open>\<^verbatim>\<open>new Error(`Transaction failed: ${...}`)\<close>\<close>
  | AnotherProcessRunning int string
      \<comment> \<open>\<^verbatim>\<open>new Error(`Another rebalance process is running (PID ${pid}). Lock file: ${lockPath}`)\<close>\<close>
  | SystemError string
      \<comment> \<open>an error of the runtime that carries an errno \<^verbatim>\<open>code\<close>, such as \<^verbatim>\<open>EPERM\<close>\<close>
  | External string
      \<comment> \<open>a rejection raised by the chain client or the SDK\<close>
  | ThrownUndefined
      \<comment> \<open>\<^verbatim>\<open>throw lastErr\<close> when no error was ever stored in \<^verbatim>\<open>lastErr\<close>\<close>

section \<open>Tick math (utils.ts)\<close>

definition TICK_BASE :: real where
  "TICK_BASE = 10001 / 10000"

definition LOG_TICK_BASE :: real where
  "LOG_TICK_BASE = ln TICK_BASE"

definition MIN_TICK :: int where
  "MIN_TICK = - 443636"

definition MAX_TICK :: int where
  "MAX_TICK = 443636"

datatype rounding = Floor | Ceil | Nearest

text \<open>
  \<^verbatim>\<open>clampTick\<close>: the two bounds are aligned to the spacing, the tick itself is only
  clamped between them.
\<close>

definition clampTick :: "int \<Rightarrow> int \<Rightarrow> int" where
  "clampTick tick tickSpacing =
     (let minAligned = \<lceil>real_of_int MIN_TICK / real_of_int tickSpacing\<rceil> * tickSpacing;
          maxAligned = \<lfloor>real_of_int MAX_TICK / real_of_int tickSpacing\<rfloor> * tickSpacing
      in max minAligned (min maxAligned tick))"

definition priceToTick :: "real \<Rightarrow> int \<Rightarrow> rounding \<Rightarrow> error + int" where
  "priceToTick price tickSpacing rnd =
     (if price \<le> 0 then Inl PriceNotPositive
      else
        let rawTick = ln price / LOG_TICK_BASE;
            tick = (case rnd of
                      Floor \<Rightarrow> \<lfloor>rawTick / real_of_int tickSpacing\<rfloor> * tickSpacing
                    | Ceil \<Rightarrow> \<lceil>rawTick / real_of_int tickSpacing\<rceil> * tickSpacing
                    | Nearest \<Rightarrow> round (rawTick / real_of_int tickSpacing) * tickSpacing)
        in Inr (clampTick tick tickSpacing))"

definition tickToPrice :: "int \<Rightarrow> real" where
  "tickToPrice tick = TICK_BASE powr real_of_int tick"

definition computeNewTickRange :: "real \<Rightarrow> real \<Rightarrow> int \<Rightarrow> error + (int \<times> int)" where
  "computeNewTickRange currentPrice priceBandPct tickSpacing =
     (let factor = priceBandPct / 100;
          lowerPrice = currentPrice * (1 - factor);
          upperPrice = currentPrice * (1 + factor)
      in case priceToTick lowerPrice tickSpacing Floor of
           Inl e \<Rightarrow> Inl e
         | Inr tickLower \<Rightarrow>
             (case priceToTick upperPrice tickSpacing Ceil of
                Inl e \<Rightarrow> Inl e
              | Inr tickUpper \<Rightarrow>
                  if tickLower \<ge> tickUpper then Inl (InvalidTickRange tickLower tickUpper)
                  else Inr (tickLower, tickUpper)))"

definition centerTick :: "int \<Rightarrow> int \<Rightarrow> int" where
  "centerTick tickLower tickUpper = round (real_of_int (tickLower + tickUpper) / 2)"

definition driftPct :: "real \<Rightarrow> int \<Rightarrow> int \<Rightarrow> real" where
  "driftPct currentPrice tickLower tickUpper =
     (let centerPrice = tickToPrice (centerTick tickLower tickUpper)
      in ((currentPrice - centerPrice) / centerPrice) * 100)"

definition isTickInRange :: "int \<Rightarrow> int \<Rightarrow> int \<Rightarrow> bool" where
  "isTickInRange tick tickLower tickUpper \<longleftrightarrow> tick \<ge> tickLower \<and> tick \<le> tickUpper"

text \<open>
  \<^verbatim>\<open>backoffMs(attempt, baseMs = 1000, maxMs = 30000)\<close>; the attempt is the zero-based loop
  counter of the retry loop.
\<close>

definition backoffMs :: "nat \<Rightarrow> nat \<Rightarrow> nat \<Rightarrow> nat" where
  "backoffMs attempt baseMs maxMs = min (baseMs * 2 ^ attempt) maxMs"

section \<open>Double arithmetic\<close>

text \<open>
  A finite double is a real number \<open>k \<cdot> 2 powi (e - 52)\<close> with an integer \<open>k\<close> of at most
  53 bits and an exponent \<open>e\<close> from -1022 on. \<open>to_double\<close> is the rounding of IEEE 754 that
  every operation and every conversion of the sources applies: to the nearest double, a
  tie to the one with the even \<open>k\<close>, with gradual underflow below \<open>2 powi (- 1022)\<close>.
  \<open>binade\<close> is the exponent \<open>e\<close> of the argument. A result beyond the largest double,
  which the sources turn into an infinity, is not modelled: \<open>to_double\<close> is the rounding
  of the sources for results below \<open>2 powi 1024\<close> in absolute value. The price of a pool
  is the square of a 128-bit square-root price divided by \<open>2 powi 64\<close>, and the amounts
  are token balances, so the swap sizing stays far below that bound.
\<close>

definition round_half_even :: "real \<Rightarrow> int" where
  "round_half_even y =
     (let f = \<lfloor>y\<rfloor>; r = y - real_of_int f
      in if r < 1 / 2 then f
         else if r > 1 / 2 then f + 1
         else if even f then f else f + 1)"

definition binade :: "real \<Rightarrow> int" where
  "binade x = max \<lfloor>log 2 \<bar>x\<bar>\<rfloor> (- 1022)"

definition to_double :: "real \<Rightarrow> real" where
  "to_double x =
     (if x = 0 then 0
      else real_of_int (round_half_even (x / 2 powi (binade x - 52))) * 2 powi (binade x - 52))"

text \<open>\<^verbatim>\<open>Number(b)\<close> for a \<^verbatim>\<open>bigint\<close>, and the four operations on doubles.\<close>

definition Number_bigint :: "int \<Rightarrow> real" where
  "Number_bigint n = to_double (real_of_int n)"

definition fadd :: "real \<Rightarrow> real \<Rightarrow> real" where
  "fadd a b = to_double (a + b)"

definition fsub :: "real \<Rightarrow> real \<Rightarrow> real" where
  "fsub a b = to_double (a - b)"

definition fmul :: "real \<Rightarrow> real \<Rightarrow> real" where
  "fmul a b = to_double (a * b)"

definition fdiv :: "real \<Rightarrow> real \<Rightarrow> real" where
  "fdiv a b = to_double (a / b)"

section \<open>Strategy (strategy.ts)\<close>

record PositionState =
  tickLower :: int
  tickUpper :: int
  liquidity :: int
  unclaimedFeeA :: int
  unclaimedFeeB :: int

record PoolState =
  currentTick :: int
  currentPrice :: real
  tickSpacing :: int
  sqrtPrice :: int

datatype RebalanceTrigger = price_out_of_range | drift_exceeded | none

datatype RebalanceMode = price_band | drift

text \<open>The fields of \<^verbatim>\<open>BotConfig\<close> that the strategy and the execution code read.\<close>

record BotConfig =
  rebalanceMode :: RebalanceMode
  priceBandPct :: real
  driftTriggerPct :: real
  slippageBps :: int
  gasBudget :: int
  maxRetries :: int
  dryRun :: bool
  confirm :: bool

text \<open>
  The \<^verbatim>\<open>details\<close> string of a decision is built from a template; the model keeps the
  template and the values put into it, not the formatted text.
\<close>

datatype details =
    TickOutside int int int
      \<comment> \<open>\<^verbatim>\<open>`Current tick ${currentTick} is outside [${tickLower}, ${tickUpper}]`\<close>\<close>
  | DriftExceeds real real
      \<comment> \<open>\<^verbatim>\<open>`Drift ${drift.toFixed(2)}% exceeds threshold ${config.driftTriggerPct}%`\<close>\<close>
  | InRangeDrift real
      \<comment> \<open>\<^verbatim>\<open>`In range. Drift: ${drift.toFixed(2)}%`\<close>\<close>

record StrategyDecision =
  shouldRebalance :: bool
  trigger :: RebalanceTrigger
  currentDriftPct :: real
  newTickLower :: "int option"
  newTickUpper :: "int option"
  details :: details

definition evaluateStrategy :: "PoolState \<Rightarrow> PositionState \<Rightarrow> BotConfig \<Rightarrow> error + StrategyDecision" where
  "evaluateStrategy pool position config =
     (let drift = driftPct (currentPrice pool) (tickLower position) (tickUpper position);
          inRange = isTickInRange (currentTick pool) (tickLower position) (tickUpper position)
      in if \<not> inRange then
           (case computeNewTickRange (currentPrice pool) (priceBandPct config) (tickSpacing pool) of
              Inl e \<Rightarrow> Inl e
            | Inr (newLower, newUpper) \<Rightarrow>
                Inr \<lparr>shouldRebalance = True, trigger = price_out_of_range,
                     currentDriftPct = drift,
                     newTickLower = Some newLower, newTickUpper = Some newUpper,
                     details = TickOutside (currentTick pool) (tickLower position) (tickUpper position)\<rparr>)
         else if \<bar>drift\<bar> > driftTriggerPct config then
           (case computeNewTickRange (currentPrice pool) (priceBandPct config) (tickSpacing pool) of
              Inl e \<Rightarrow> Inl e
            | Inr (newLower, newUpper) \<Rightarrow>
                Inr \<lparr>shouldRebalance = True, trigger = drift_exceeded,
                     currentDriftPct = drift,
                     newTickLower = Some newLower, newTickUpper = Some newUpper,
                     details = DriftExceeds drift (driftTriggerPct config)\<rparr>)
         else
           Inr \<lparr>shouldRebalance = False, trigger = none,
                currentDriftPct = drift,
                newTickLower = None, newTickUpper = None,
                details = InRangeDrift drift\<rparr>)"

record TokenAmounts =
  amountA :: real
  amountB :: real

definition computeTokenAmounts :: "int \<Rightarrow> real \<Rightarrow> int \<Rightarrow> int \<Rightarrow> TokenAmounts" where
  "computeTokenAmounts liq price lower upper =
     (let sqrtCurrent = sqrt price;
          sqrtLower = sqrt (tickToPrice lower);
          sqrtUpper = sqrt (tickToPrice upper);
          L = real_of_int liq
      in if price \<le> tickToPrice lower then
           \<lparr>amountA = L * (1 / sqrtLower - 1 / sqrtUpper), amountB = 0\<rparr>
         else if price \<ge> tickToPrice upper then
           \<lparr>amountA = 0, amountB = L * (sqrtUpper - sqrtLower)\<rparr>
         else
           \<lparr>amountA = L * (1 / sqrtCurrent - 1 / sqrtUpper),
            amountB = L * (sqrtCurrent - sqrtLower)\<rparr>)"

record SwapPlan =
  swapAtoB :: bool
  swapAmount :: int

text \<open>
  \<^verbatim>\<open>null\<close> is \<open>None\<close>. The parameter \<^verbatim>\<open>slippageBps\<close> is not read by the source either.
  The balances are converted with \<^verbatim>\<open>Number\<close>, the literal \<^verbatim>\<open>0.05\<close> is the double nearest to
  5/100, and each arithmetic operation is the rounded one. \<^verbatim>\<open>Math.abs\<close>,
  \<^verbatim>\<open>Math.floor\<close>, the comparisons and \<^verbatim>\<open>BigInt\<close> of an integral double are exact. The
  target ratio and the price are the doubles the caller passes.
\<close>

definition computeSwapNeeded :: "int \<Rightarrow> int \<Rightarrow> real \<Rightarrow> real \<Rightarrow> int \<Rightarrow> SwapPlan option" where
  "computeSwapNeeded balanceA balanceB targetRatioAtoB price slippage =
     (let bA = Number_bigint balanceA;
          bB = Number_bigint balanceB
      in if targetRatioAtoB \<le> 0 \<or> fadd bA bB = 0 then None
         else
           let x = fdiv (fsub bA (fmul targetRatioAtoB bB)) (fadd 1 (fmul targetRatioAtoB price));
               totalValueInA = fadd bA (fdiv bB price);
               tolerance = to_double (5 / 100)
           in if \<bar>x\<bar> < fmul tolerance totalValueInA then None
              else if x > 0 then
                (let amount = \<lfloor>x\<rfloor>
                 in if amount = 0 then None
                    else Some \<lparr>swapAtoB = True, swapAmount = amount\<rparr>)
              else
                (let bAmount = fmul \<bar>x\<bar> price;
                     amount = \<lfloor>bAmount\<rfloor>
                 in if amount = 0 then None
                    else Some \<lparr>swapAtoB = False, swapAmount = amount\<rparr>))"

section \<open>Decimal text of an integer\<close>

text \<open>\<^verbatim>\<open>bigint.toString()\<close> and \<^verbatim>\<open>String(n)\<close> for an integer \<^verbatim>\<open>n\<close>.\<close>

definition digit_char :: "nat \<Rightarrow> char" where
  "digit_char d = ''0123456789'' ! d"

fun nat_toString :: "nat \<Rightarrow> string" where
  "nat_toString n =
     (if n < 10 then [digit_char n]
      else nat_toString (n div 10) @ [digit_char (n mod 10)])"

declare nat_toString.simps [simp del]

definition int_toString :: "int \<Rightarrow> string" where
  "int_toString i =
     (if i < 0 then CHR ''-'' # nat_toString (nat (- i)) else nat_toString (nat i))"

section \<open>State store (persistence.ts)\<close>

record BotState =
  lastRebalanceTime :: "int option"
  lastPositionId :: "string option"
  lastTickLower :: "int option"
  lastTickUpper :: "int option"
  lastLiquidity :: "string option"
  totalRebalances :: int
  lastTxDigest :: "string option"

definition DEFAULT_STATE :: BotState where
  "DEFAULT_STATE =
     \<lparr>lastRebalanceTime = None, lastPositionId = None, lastTickLower = None,
      lastTickUpper = None, lastLiquidity = None, totalRebalances = 0,
      lastTxDigest = None\<rparr>"

text \<open>
  What \<^verbatim>\<open>JSON.parse\<close> gives for a state file is a \<^verbatim>\<open>Partial<BotState>\<close>: every field
  may be absent.
\<close>

record PartialBotState =
  p_lastRebalanceTime :: "int option"
  p_lastPositionId :: "string option"
  p_lastTickLower :: "int option"
  p_lastTickUpper :: "int option"
  p_lastLiquidity :: "string option"
  p_totalRebalances :: "int option"
  p_lastTxDigest :: "string option"

text \<open>The object spread \<^verbatim>\<open>{ ...base, ...partial }\<close>: a field of the partial object, when present, wins.\<close>

definition spread :: "BotState \<Rightarrow> PartialBotState \<Rightarrow> BotState" where
  "spread base p =
     \<lparr>lastRebalanceTime =
        (case p_lastRebalanceTime p of None \<Rightarrow> lastRebalanceTime base | Some v \<Rightarrow> Some v),
      lastPositionId =
        (case p_lastPositionId p of None \<Rightarrow> lastPositionId base | Some v \<Rightarrow> Some v),
      lastTickLower =
        (case p_lastTickLower p of None \<Rightarrow> lastTickLower base | Some v \<Rightarrow> Some v),
      lastTickUpper =
        (case p_lastTickUpper p of None \<Rightarrow> lastTickUpper base | Some v \<Rightarrow> Some v),
      lastLiquidity =
        (case p_lastLiquidity p of None \<Rightarrow> lastLiquidity base | Some v \<Rightarrow> Some v),
      totalRebalances =
        (case p_totalRebalances p of None \<Rightarrow> totalRebalances base | Some v \<Rightarrow> v),
      lastTxDigest =
        (case p_lastTxDigest p of None \<Rightarrow> lastTxDigest base | Some v \<Rightarrow> Some v)\<rparr>"

text \<open>
  The file system is a map from paths to file contents. \<^verbatim>\<open>JSON.parse\<close> and
  \<^verbatim>\<open>JSON.stringify\<close> belong to the runtime and are parameters; a parse that throws is \<open>None\<close>.
\<close>

type_synonym files = "string \<rightharpoonup> string"

definition loadState :: "(string \<Rightarrow> PartialBotState option) \<Rightarrow> files \<Rightarrow> string \<Rightarrow> BotState" where
  "loadState parse fs statePath =
     (case fs statePath of
        None \<Rightarrow> DEFAULT_STATE
      | Some raw \<Rightarrow>
          (case parse raw of
             None \<Rightarrow> DEFAULT_STATE
           | Some p \<Rightarrow> spread DEFAULT_STATE p))"

definition saveState :: "(BotState \<Rightarrow> string) \<Rightarrow> files \<Rightarrow> string \<Rightarrow> BotState \<Rightarrow> files" where
  "saveState stringify fs statePath state = fs(statePath \<mapsto> stringify state)"

text \<open>\<^verbatim>\<open>Date.now()\<close> is the first argument.\<close>

definition updateStateAfterRebalance ::
  "int \<Rightarrow> BotState \<Rightarrow> string \<Rightarrow> int \<Rightarrow> int \<Rightarrow> int \<Rightarrow> string \<Rightarrow> BotState" where
  "updateStateAfterRebalance now state positionId lower upper liq txDigest =
     state\<lparr>lastRebalanceTime := Some now,
           lastPositionId := Some positionId,
           lastTickLower := Some lower,
           lastTickUpper := Some upper,
           lastLiquidity := Some (int_toString liq),
           totalRebalances := totalRebalances state + 1,
           lastTxDigest := Some txDigest\<rparr>"

section \<open>Concurrency guard (riskChecks.ts)\<close>

text \<open>
  The runtime of the process: its own id, the liveness probe \<^verbatim>\<open>process.kill(pid, 0)\<close>
  (\<open>None\<close> when the call returns, \<open>Some code\<close> when it throws a system error with that
  errno code), and the built-ins \<^verbatim>\<open>String.prototype.trim\<close> and \<^verbatim>\<open>parseInt\<close>
  (\<open>None\<close> for \<^verbatim>\<open>NaN\<close>).
\<close>

record runtime =
  process_pid :: int
  process_kill :: "int \<Rightarrow> string option"
  trim :: "string \<Rightarrow> string"
  parseInt :: "string \<Rightarrow> int option"

datatype fsop = Unlink string | WriteFile string string

text \<open>The disk: the files, and the journal of the operations that changed them, oldest first.\<close>

record disk =
  files :: files
  journal :: "fsop list"

definition unlinkSync :: "string \<Rightarrow> disk \<Rightarrow> disk" where
  "unlinkSync path d = d\<lparr>files := (files d)(path := None), journal := journal d @ [Unlink path]\<rparr>"

definition writeFileSync :: "string \<Rightarrow> string \<Rightarrow> disk \<Rightarrow> disk" where
  "writeFileSync path content d =
     d\<lparr>files := (files d)(path \<mapsto> content), journal := journal d @ [WriteFile path content]\<rparr>"

definition checkConcurrency :: "runtime \<Rightarrow> string \<Rightarrow> disk \<Rightarrow> (error + unit) \<times> disk" where
  "checkConcurrency rt lockPath d =
     (case files d lockPath of
        None \<Rightarrow> (Inr (), d)
      | Some raw \<Rightarrow>
          (let content = trim rt raw;
               pid = parseInt rt content
           in case pid of
                None \<Rightarrow> (Inr (), d)
              | Some p \<Rightarrow>
                  if p \<noteq> process_pid rt then
                    (case process_kill rt p of
                       None \<Rightarrow> (Inl (AnotherProcessRunning p lockPath), d)
                     | Some code \<Rightarrow>
                         if code = ''ESRCH'' then (Inr (), unlinkSync lockPath d)
                         else (Inl (SystemError code), d))
                  else (Inr (), d)))"

definition acquireLock :: "runtime \<Rightarrow> string \<Rightarrow> disk \<Rightarrow> (error + unit) \<times> disk" where
  "acquireLock rt lockPath d =
     (case checkConcurrency rt lockPath d of
        (Inl e, d') \<Rightarrow> (Inl e, d')
      | (Inr u, d') \<Rightarrow> (Inr (), writeFileSync lockPath (int_toString (process_pid rt)) d'))"

definition releaseLock :: "string \<Rightarrow> disk \<Rightarrow> disk" where
  "releaseLock lockPath d =
     (case files d lockPath of None \<Rightarrow> d | Some raw \<Rightarrow> unlinkSync lockPath d)"

section \<open>Transaction execution (suiWallet.ts) and the rebalance sequence (index.ts)\<close>

text \<open>
  A built transaction is the operation and the arguments the builder of \<^verbatim>\<open>CetusClient\<close>
  was called with.
\<close>

datatype tx =
    CollectFeeTx string
      \<comment> \<open>\<^verbatim>\<open>buildCollectFeeTx(positionId)\<close>\<close>
  | RemoveLiquidityTx string int int
      \<comment> \<open>\<^verbatim>\<open>buildRemoveLiquidityTx(positionId, liquidity, slippageBps)\<close>\<close>
  | SwapTx bool int int
      \<comment> \<open>\<^verbatim>\<open>buildSwapTx(swapAtoB, amount, slippageBps)\<close>\<close>
  | AddLiquidityTx string int int int int int
      \<comment> \<open>\<^verbatim>\<open>buildAddLiquidityTx(positionId, tickLower, tickUpper, amountA, amountB, slippageBps)\<close>\<close>

text \<open>
  What \<^verbatim>\<open>signAndExecuteTransaction\<close> resolves to: \<^verbatim>\<open>result.effects?.status?.status\<close>,
  \<^verbatim>\<open>result.effects?.status?.error\<close> (each \<open>None\<close> when undefined) and \<^verbatim>\<open>result.digest\<close>.
\<close>

record exec_response =
  effects_status :: "string option"
  effects_error :: "string option"
  response_digest :: string

datatype rpc_outcome = Rejects error | Resolves exec_response

text \<open>
  The external collaborators. The outcome of a broadcast is indexed by the number of
  broadcasts made before it, the answer to a balance query by the number of queries made
  before it; a builder or a simulation that throws gives \<open>Some\<close> error.
\<close>

record chain =
  sdkBuild :: "tx \<Rightarrow> error option"
  dryRunTransactionBlock :: "tx \<Rightarrow> error option"
  signAndExecuteTransaction :: "nat \<Rightarrow> rpc_outcome"
  fetchPoolState :: "error + PoolState"
  getTokenBalances :: "nat \<Rightarrow> error + (int \<times> int)"

datatype event =
    SdkBuild tx
  | Simulate tx int
  | AbortNoConfirm tx
  | Broadcast tx int
  | Sleep nat
  | FetchPool
  | QueryBalances

text \<open>The effects so far, oldest first, and the counters that index the collaborators' answers.\<close>

record world =
  trace :: "event list"
  broadcasts :: nat
  balanceQueries :: nat

definition emit :: "event \<Rightarrow> world \<Rightarrow> world" where
  "emit e w = w\<lparr>trace := trace w @ [e]\<rparr>"

record TxResult =
  result_digest :: string
  result_dryRun :: bool

text \<open>
  One pass of the \<^verbatim>\<open>try\<close> block: the broadcast, and the check of the execution status.
  \<^verbatim>\<open>status.error || "unknown"\<close> takes \<^verbatim>\<open>"unknown"\<close> for an undefined and for an empty error.
\<close>

definition attempt_outcome :: "rpc_outcome \<Rightarrow> error + string" where
  "attempt_outcome r =
     (case r of
        Rejects e \<Rightarrow> Inl e
      | Resolves resp \<Rightarrow>
          if effects_status resp \<noteq> Some ''success'' then
            Inl (TransactionFailed
                  (case effects_error resp of
                     None \<Rightarrow> ''unknown''
                   | Some m \<Rightarrow> if m = [] then ''unknown'' else m))
          else Inr (response_digest resp))"

text \<open>
  The retry loop \<^verbatim>\<open>for (let attempt = 0; attempt <= config.maxRetries; attempt++)\<close>, from
  the value \<open>attempt\<close> of the counter on, with the error stored in \<^verbatim>\<open>lastErr\<close>.
\<close>

function retry_loop ::
  "chain \<Rightarrow> int \<Rightarrow> tx \<Rightarrow> int \<Rightarrow> nat \<Rightarrow> error option \<Rightarrow> world \<Rightarrow> (error + TxResult) \<times> world" where
  "retry_loop ch retries t gas attempt lastErr w =
     (if int attempt \<le> retries then
        (let w1 = (emit (Broadcast t gas) w)\<lparr>broadcasts := broadcasts w + 1\<rparr>
         in case attempt_outcome (signAndExecuteTransaction ch (broadcasts w)) of
              Inr dg \<Rightarrow> (Inr \<lparr>result_digest = dg, result_dryRun = False\<rparr>, w1)
            | Inl err \<Rightarrow>
                retry_loop ch retries t gas (attempt + 1) (Some err)
                  (emit (Sleep (backoffMs attempt 1000 30000)) w1))
      else
        (case lastErr of
           None \<Rightarrow> (Inl ThrownUndefined, w)
         | Some err \<Rightarrow> (Inl err, w)))"
  by pat_completeness auto
termination
  by (relation "measure (\<lambda>(ch, retries, t, gas, attempt, lastErr, w). nat (retries + 1 - int attempt))") auto

declare retry_loop.simps [simp del]

definition executeTransaction :: "chain \<Rightarrow> BotConfig \<Rightarrow> tx \<Rightarrow> world \<Rightarrow> (error + TxResult) \<times> world" where
  "executeTransaction ch config t w =
     (if dryRun config then
        (case dryRunTransactionBlock ch t of
           Some e \<Rightarrow> (Inl e, emit (Simulate t (gasBudget config)) w)
         | None \<Rightarrow>
             (Inr \<lparr>result_digest = ''dry-run'', result_dryRun = True\<rparr>,
              emit (Simulate t (gasBudget config)) w))
      else if \<not> confirm config then
        (Inr \<lparr>result_digest = ''aborted-no-confirm'', result_dryRun = False\<rparr>,
         emit (AbortNoConfirm t) w)
      else retry_loop ch (maxRetries config) t (gasBudget config) 0 None w)"

text \<open>Sequencing of steps that can throw: the first error ends the sequence.\<close>

definition and_then ::
  "(world \<Rightarrow> (error + 'a) \<times> world) \<Rightarrow> ('a \<Rightarrow> world \<Rightarrow> (error + 'b) \<times> world) \<Rightarrow>
   world \<Rightarrow> (error + 'b) \<times> world" where
  "and_then m f w =
     (case m w of
        (Inl e, w') \<Rightarrow> (Inl e, w')
      | (Inr x, w') \<Rightarrow> f x w')"

definition build :: "chain \<Rightarrow> tx \<Rightarrow> world \<Rightarrow> (error + tx) \<times> world" where
  "build ch t w =
     (case sdkBuild ch t of
        Some e \<Rightarrow> (Inl e, emit (SdkBuild t) w)
      | None \<Rightarrow> (Inr t, emit (SdkBuild t) w))"

definition fetchPool :: "chain \<Rightarrow> world \<Rightarrow> (error + PoolState) \<times> world" where
  "fetchPool ch w = (fetchPoolState ch, emit FetchPool w)"

definition queryBalances :: "chain \<Rightarrow> world \<Rightarrow> (error + (int \<times> int)) \<times> world" where
  "queryBalances ch w =
     (getTokenBalances ch (balanceQueries w),
      (emit QueryBalances w)\<lparr>balanceQueries := balanceQueries w + 1\<rparr>)"

text \<open>
  \<^verbatim>\<open>runRebalance\<close>; the parameters \<^verbatim>\<open>tickLower\<close> and \<^verbatim>\<open>tickUpper\<close> of the old range are
  not read by the source and are left out. The result is the digest of the last step.
  \<open>plan_swap\<close> is the computation of \<^verbatim>\<open>swapInfo\<close> from the fetched pool state and
  balances, \<open>swap_step\<close> the conditional swap.
\<close>

definition plan_swap ::
  "BotConfig \<Rightarrow> int \<Rightarrow> int \<Rightarrow> int \<Rightarrow> PoolState \<Rightarrow> int \<Rightarrow> int \<Rightarrow> SwapPlan option" where
  "plan_swap config liq newLower newUpper poolState balanceA balanceB =
     (let target = computeTokenAmounts liq (currentPrice poolState) newLower newUpper;
          targetRatio = (if amountB target > 0 then amountA target / amountB target else 1)
      in computeSwapNeeded balanceA balanceB targetRatio (currentPrice poolState)
           (slippageBps config))"

definition swap_step ::
  "chain \<Rightarrow> BotConfig \<Rightarrow> SwapPlan option \<Rightarrow> string \<Rightarrow> world \<Rightarrow> (error + string) \<times> world" where
  "swap_step ch config swapInfo lastDigest =
     (case swapInfo of
        None \<Rightarrow> (\<lambda>w. (Inr lastDigest, w))
      | Some plan \<Rightarrow>
          and_then (build ch (SwapTx (swapAtoB plan) (swapAmount plan) (slippageBps config)))
            (\<lambda>swapTx. and_then (executeTransaction ch config swapTx)
               (\<lambda>swapResult w. (Inr (result_digest swapResult), w))))"

definition runRebalance ::
  "chain \<Rightarrow> BotConfig \<Rightarrow> string \<Rightarrow> int \<Rightarrow> int \<Rightarrow> int \<Rightarrow> world \<Rightarrow> (error + string) \<times> world" where
  "runRebalance ch config positionId newLower newUpper liq =
     and_then (build ch (CollectFeeTx positionId))
       (\<lambda>collectTx. and_then (executeTransaction ch config collectTx)
       (\<lambda>collectResult. and_then (build ch (RemoveLiquidityTx positionId liq (slippageBps config)))
       (\<lambda>removeTx. and_then (executeTransaction ch config removeTx)
       (\<lambda>removeResult. and_then (fetchPool ch)
       (\<lambda>poolState. and_then (queryBalances ch)
       (\<lambda>(balanceA, balanceB). and_then
          (swap_step ch config (plan_swap config liq newLower newUpper poolState balanceA balanceB)
             (result_digest removeResult))
       (\<lambda>lastDigest. and_then (queryBalances ch)
       (\<lambda>(newBalA, newBalB). and_then
          (build ch (AddLiquidityTx positionId newLower newUpper newBalA newBalB (slippageBps config)))
       (\<lambda>addTx. and_then (executeTransaction ch config addTx)
       (\<lambda>addResult w. (Inr (result_digest addResult), w)))))))))))"

text \<open>
  The effects of one step of the sequence when the confirmation gate stops it: the
  transaction is built and the abort is reported.
\<close>

definition gated_step :: "tx \<Rightarrow> event list" where
  "gated_step t = [SdkBuild t, AbortNoConfirm t]"

text \<open>
  The effects of \<open>k\<close> failed broadcasts of the same transaction, numbered from \<open>from\<close>: each
  broadcast followed by its backoff sleep.
\<close>

definition failed_attempts :: "tx \<Rightarrow> int \<Rightarrow> nat \<Rightarrow> nat \<Rightarrow> event list" where
  "failed_attempts t gas from k =
     concat (map (\<lambda>j. [Broadcast t gas, Sleep (backoffMs j 1000 30000)]) [from ..< from + k])"

definition count_broadcasts :: "event list \<Rightarrow> nat" where
  "count_broadcasts es = length (filter (\<lambda>e. case e of Broadcast t g \<Rightarrow> True | _ \<Rightarrow> False) es)"

section \<open>Sample inputs\<close>

text \<open>
  A pool at price 1, positions, configurations, collaborators and a starting world on
  which the theorems below are evaluated. \<open>live_config\<close> has the defaults of
  \<^verbatim>\<open>loadConfig\<close> for the strategy, the slippage, the gas budget and the retries, with
  live mode and the confirmation flag set.
\<close>

definition sample_pool :: PoolState where
  "sample_pool =
     \<lparr>currentTick = 0, currentPrice = 1, tickSpacing = 10, sqrtPrice = 18446744073709551616\<rparr>"

text \<open>Three positions: one centred on tick 0, one above it, one that holds it off-centre.\<close>

definition centred_position :: PositionState where
  "centred_position =
     \<lparr>tickLower = - 200, tickUpper = 200, liquidity = 1000000,
      unclaimedFeeA = 0, unclaimedFeeB = 0\<rparr>"

definition upper_position :: PositionState where
  "upper_position = centred_position\<lparr>tickLower := 100, tickUpper := 500\<rparr>"

definition skewed_position :: PositionState where
  "skewed_position = centred_position\<lparr>tickLower := - 100, tickUpper := 300\<rparr>"

definition live_config :: BotConfig where
  "live_config =
     \<lparr>rebalanceMode = price_band, priceBandPct = 3 / 2, driftTriggerPct = 1 / 2,
      slippageBps = 50, gasBudget = 500000000, maxRetries = 3,
      dryRun = False, confirm = True\<rparr>"

definition unconfirmed_config :: BotConfig where
  "unconfirmed_config = live_config\<lparr>confirm := False\<rparr>"

definition fresh_world :: world where
  "fresh_world = \<lparr>trace = [], broadcasts = 0, balanceQueries = 0\<rparr>"

text \<open>A node whose first execution fails on chain and whose later ones succeed.\<close>

definition flaky_chain :: chain where
  "flaky_chain =
     \<lparr>sdkBuild = (\<lambda>t. None),
      dryRunTransactionBlock = (\<lambda>t. None),
      signAndExecuteTransaction =
        (\<lambda>n. if n = 0
              then Resolves \<lparr>effects_status = Some ''failure'',
                             effects_error = Some ''InsufficientGas'',
                             response_digest = ''digest0''\<rparr>
              else Resolves \<lparr>effects_status = Some ''success'',
                             effects_error = None,
                             response_digest = ''digest1''\<rparr>),
      fetchPoolState = Inr sample_pool,
      getTokenBalances = (\<lambda>n. Inr (0, 0))\<rparr>"

text \<open>A node that rejects every broadcast.\<close>

definition dead_chain :: chain where
  "dead_chain =
     flaky_chain\<lparr>signAndExecuteTransaction := (\<lambda>n. Rejects (External ''rpc unavailable''))\<rparr>"

section \<open>Properties of the tick math\<close>

lemma clamp_bounds_aligned:
  assumes "0 < s"
  shows "MIN_TICK \<le> \<lceil>real_of_int MIN_TICK / real_of_int s\<rceil> * s"
    and "\<lfloor>real_of_int MAX_TICK / real_of_int s\<rfloor> * s \<le> MAX_TICK"
    and "\<lceil>real_of_int MIN_TICK / real_of_int s\<rceil> * s \<le> 0"
    and "0 \<le> \<lfloor>real_of_int MAX_TICK / real_of_int s\<rfloor> * s"
proof -
  have s: "0 < real_of_int s" using assms by simp
  have "real_of_int MIN_TICK / real_of_int s \<le> real_of_int \<lceil>real_of_int MIN_TICK / real_of_int s\<rceil>"
    by (rule le_of_int_ceiling)
  then have "real_of_int MIN_TICK \<le> real_of_int \<lceil>real_of_int MIN_TICK / real_of_int s\<rceil> * real_of_int s"
    by (simp only: pos_divide_le_eq [OF s])
  then have "real_of_int MIN_TICK \<le> real_of_int (\<lceil>real_of_int MIN_TICK / real_of_int s\<rceil> * s)"
    by simp
  then show "MIN_TICK \<le> \<lceil>real_of_int MIN_TICK / real_of_int s\<rceil> * s"
    by (simp only: of_int_le_iff)
  have "real_of_int \<lfloor>real_of_int MAX_TICK / real_of_int s\<rfloor> \<le> real_of_int MAX_TICK / real_of_int s"
    by (rule of_int_floor_le)
  then have "real_of_int \<lfloor>real_of_int MAX_TICK / real_of_int s\<rfloor> * real_of_int s \<le> real_of_int MAX_TICK"
    by (simp only: pos_le_divide_eq [OF s])
  then have "real_of_int (\<lfloor>real_of_int MAX_TICK / real_of_int s\<rfloor> * s) \<le> real_of_int MAX_TICK"
    by simp
  then show "\<lfloor>real_of_int MAX_TICK / real_of_int s\<rfloor> * s \<le> MAX_TICK"
    by (simp only: of_int_le_iff)
  have "real_of_int MIN_TICK / real_of_int s \<le> 0"
    using s by (simp add: MIN_TICK_def divide_le_0_iff)
  then have "\<lceil>real_of_int MIN_TICK / real_of_int s\<rceil> \<le> 0"
    by (simp add: ceiling_le_iff)
  then show "\<lceil>real_of_int MIN_TICK / real_of_int s\<rceil> * s \<le> 0"
    using assms by (simp add: mult_le_0_iff)
  have "0 \<le> real_of_int MAX_TICK / real_of_int s"
    using s by (simp add: MAX_TICK_def)
  then have "0 \<le> \<lfloor>real_of_int MAX_TICK / real_of_int s\<rfloor>"
    by (simp add: le_floor_iff)
  then show "0 \<le> \<lfloor>real_of_int MAX_TICK / real_of_int s\<rfloor> * s"
    using assms by simp
qed

lemma clampTick_within:
  assumes "0 < s"
  shows "MIN_TICK \<le> clampTick t s" and "clampTick t s \<le> MAX_TICK"
  using clamp_bounds_aligned [OF assms] by (simp_all add: clampTick_def Let_def)

lemma clampTick_aligned_bounds:
  assumes "0 < s"
  shows "\<lceil>real_of_int MIN_TICK / real_of_int s\<rceil> * s \<le> clampTick t s"
    and "clampTick t s \<le> \<lfloor>real_of_int MAX_TICK / real_of_int s\<rfloor> * s"
  using clamp_bounds_aligned [OF assms] by (simp_all add: clampTick_def Let_def)

lemma clampTick_dvd:
  assumes "s dvd t"
  shows "s dvd clampTick t s"
  using assms by (simp add: clampTick_def Let_def max_def min_def)

subsection \<open>priceToTick\<close>

text \<open>
  Claim C5. For every price above zero, every positive tick spacing and each of the three
  rounding modes, \<open>priceToTick\<close> returns a tick (it does not throw), the tick is a multiple
  of the tick spacing, and it lies between \<open>MIN_TICK\<close> and \<open>MAX_TICK\<close>.
\<close>

theorem priceToTick_aligned_within_bounds:
  assumes "0 < price" and "0 < s"
  shows "\<exists>t. priceToTick price s rnd = Inr t \<and> t mod s = 0 \<and> MIN_TICK \<le> t \<and> t \<le> MAX_TICK"
proof -
  define raw where "raw = ln price / LOG_TICK_BASE / real_of_int s"
  define k where "k = (case rnd of Floor \<Rightarrow> \<lfloor>raw\<rfloor> | Ceil \<Rightarrow> \<lceil>raw\<rceil> | Nearest \<Rightarrow> round raw)"
  have eq: "priceToTick price s rnd = Inr (clampTick (k * s) s)"
    using assms(1) by (cases rnd) (simp_all add: priceToTick_def Let_def k_def raw_def)
  have "s dvd clampTick (k * s) s"
    by (rule clampTick_dvd) simp
  then have "clampTick (k * s) s mod s = 0"
    by (simp add: mod_eq_0_iff_dvd)
  with eq clampTick_within [OF assms(2), of "k * s"] show ?thesis
    by simp
qed

text \<open>The price 1 with spacing 10, rounded down.\<close>

theorem priceToTick_aligned_within_bounds_witness:
  "(0::real) < 1 \<and> (0::int) < 10 \<and>
   (\<exists>t. priceToTick 1 10 Floor = Inr t \<and> t mod 10 = 0 \<and> MIN_TICK \<le> t \<and> t \<le> MAX_TICK)"
  using priceToTick_aligned_within_bounds [of 1 10 Floor] by simp

subsection \<open>clampTick\<close>

text \<open>
  Claim C6, as amended. For every integer tick and positive tick spacing, \<open>clampTick\<close>
  returns a tick between the two spacing-aligned bounds, which lie between \<open>MIN_TICK\<close>
  and \<open>MAX_TICK\<close>; the result is a multiple of the tick spacing when the tick passed in
  is one. \<open>clampTick\<close> clamps and does not align: \<open>priceToTick\<close> aligns the tick before it
  calls \<open>clampTick\<close>.
\<close>

theorem clampTick_clamps_and_keeps_alignment:
  assumes "0 < s"
  shows "\<lceil>real_of_int MIN_TICK / real_of_int s\<rceil> * s \<le> clampTick t s
       \<and> clampTick t s \<le> \<lfloor>real_of_int MAX_TICK / real_of_int s\<rfloor> * s
       \<and> MIN_TICK \<le> clampTick t s \<and> clampTick t s \<le> MAX_TICK
       \<and> (t mod s = 0 \<longrightarrow> clampTick t s mod s = 0)"
proof -
  have "t mod s = 0 \<longrightarrow> clampTick t s mod s = 0"
    using clampTick_dvd [of s t] by (simp add: mod_eq_0_iff_dvd)
  with clampTick_aligned_bounds [OF assms, of t] clampTick_within [OF assms, of t]
  show ?thesis by simp
qed

text \<open>An aligned tick above the upper bound, with spacing 10, is brought down to 443630.\<close>

theorem clampTick_clamps_and_keeps_alignment_witness:
  "(0::int) < 10 \<and> (500000::int) mod 10 = 0 \<and> clampTick 500000 10 = 443630 \<and>
   clampTick 500000 10 \<le> MAX_TICK \<and> clampTick 500000 10 mod 10 = 0"
  using clampTick_clamps_and_keeps_alignment [of 10 500000]
  by (simp add: clampTick_def MIN_TICK_def MAX_TICK_def)

text \<open>
  Claim C6 as it is written fails: the tick 7 with spacing 10 is inside the bounds, comes
  back unchanged, and is not a multiple of 10.
\<close>

theorem clampTick_misaligned_counterexample:
  "(0::int) < 10 \<and> clampTick 7 10 = 7 \<and> (7::int) mod 10 \<noteq> 0"
  by (simp add: clampTick_def MIN_TICK_def MAX_TICK_def)

section \<open>Properties of the strategy\<close>

subsection \<open>computeTokenAmounts\<close>

lemma tickToPrice_pos: "0 < tickToPrice t"
  by (simp add: tickToPrice_def TICK_BASE_def)

lemma tickToPrice_zero: "tickToPrice 0 = 1"
  by (simp add: tickToPrice_def TICK_BASE_def)

lemma tickToPrice_strict_mono:
  assumes "lo < hi"
  shows "tickToPrice lo < tickToPrice hi"
  using assms by (simp add: tickToPrice_def TICK_BASE_def)

lemma sqrt_tickToPrice_pos: "0 < sqrt (tickToPrice t)"
  using tickToPrice_pos [of t] by simp

lemma inverse_sqrt_antimono:
  assumes "0 < a" and "a \<le> b"
  shows "1 / sqrt b \<le> 1 / sqrt a"
proof -
  have "0 < sqrt a" using assms(1) by simp
  moreover have "sqrt a \<le> sqrt b" using assms(2) by simp
  ultimately show ?thesis by (simp add: frac_le)
qed

text \<open>
  Claim C4. For every liquidity \<open>L \<ge> 0\<close> and every range with \<open>tickLower < tickUpper\<close>:
  when the current price is at most the price of \<open>tickLower\<close>, \<open>amountB\<close> is 0 and
  \<open>amountA\<close> is \<open>L \<cdot> (1/\<surd>lowerPrice - 1/\<surd>upperPrice)\<close>; when it is at least the price of
  \<open>tickUpper\<close>, \<open>amountA\<close> is 0 and \<open>amountB\<close> is \<open>L \<cdot> (\<surd>upperPrice - \<surd>lowerPrice)\<close>; strictly
  inside, \<open>amountA = L \<cdot> (1/\<surd>currentPrice - 1/\<surd>upperPrice)\<close> and
  \<open>amountB = L \<cdot> (\<surd>currentPrice - \<surd>lowerPrice)\<close>. In every case both amounts are
  non-negative.
\<close>

theorem computeTokenAmounts_cases:
  assumes "0 \<le> L" and "lo < hi"
  shows "(p \<le> tickToPrice lo \<longrightarrow>
            amountB (computeTokenAmounts L p lo hi) = 0
          \<and> amountA (computeTokenAmounts L p lo hi) =
              real_of_int L * (1 / sqrt (tickToPrice lo) - 1 / sqrt (tickToPrice hi)))
       \<and> (p \<ge> tickToPrice hi \<longrightarrow>
            amountA (computeTokenAmounts L p lo hi) = 0
          \<and> amountB (computeTokenAmounts L p lo hi) =
              real_of_int L * (sqrt (tickToPrice hi) - sqrt (tickToPrice lo)))
       \<and> (tickToPrice lo < p \<and> p < tickToPrice hi \<longrightarrow>
            amountA (computeTokenAmounts L p lo hi) =
              real_of_int L * (1 / sqrt p - 1 / sqrt (tickToPrice hi))
          \<and> amountB (computeTokenAmounts L p lo hi) =
              real_of_int L * (sqrt p - sqrt (tickToPrice lo)))
       \<and> 0 \<le> amountA (computeTokenAmounts L p lo hi)
       \<and> 0 \<le> amountB (computeTokenAmounts L p lo hi)"
proof -
  have lt: "tickToPrice lo < tickToPrice hi"
    by (rule tickToPrice_strict_mono [OF assms(2)])
  have L: "0 \<le> real_of_int L" using assms(1) by simp
  have below: "p \<le> tickToPrice lo \<longrightarrow>
            amountB (computeTokenAmounts L p lo hi) = 0
          \<and> amountA (computeTokenAmounts L p lo hi) =
              real_of_int L * (1 / sqrt (tickToPrice lo) - 1 / sqrt (tickToPrice hi))"
    by (simp add: computeTokenAmounts_def Let_def)
  have above: "p \<ge> tickToPrice hi \<longrightarrow>
            amountA (computeTokenAmounts L p lo hi) = 0
          \<and> amountB (computeTokenAmounts L p lo hi) =
              real_of_int L * (sqrt (tickToPrice hi) - sqrt (tickToPrice lo))"
    using lt by (simp add: computeTokenAmounts_def Let_def)
  have inside: "tickToPrice lo < p \<and> p < tickToPrice hi \<longrightarrow>
            amountA (computeTokenAmounts L p lo hi) =
              real_of_int L * (1 / sqrt p - 1 / sqrt (tickToPrice hi))
          \<and> amountB (computeTokenAmounts L p lo hi) =
              real_of_int L * (sqrt p - sqrt (tickToPrice lo))"
    by (simp add: computeTokenAmounts_def Let_def)
  have d1: "0 \<le> 1 / sqrt (tickToPrice lo) - 1 / sqrt (tickToPrice hi)"
    using inverse_sqrt_antimono [OF tickToPrice_pos, of lo "tickToPrice hi"] lt by simp
  have d2: "0 \<le> sqrt (tickToPrice hi) - sqrt (tickToPrice lo)"
    using lt by simp
  have nonnegA: "0 \<le> amountA (computeTokenAmounts L p lo hi)"
  proof (cases "p \<le> tickToPrice lo")
    case True
    with below L d1 show ?thesis by simp
  next
    case False
    note notbelow = this
    show ?thesis
    proof (cases "p \<ge> tickToPrice hi")
      case True
      with above show ?thesis by simp
    next
      case False
      have ppos: "0 < p" using notbelow tickToPrice_pos [of lo] by simp
      have "1 / sqrt (tickToPrice hi) \<le> 1 / sqrt p"
        using inverse_sqrt_antimono [OF ppos, of "tickToPrice hi"] False by simp
      then have "0 \<le> real_of_int L * (1 / sqrt p - 1 / sqrt (tickToPrice hi))"
        using L by simp
      with inside notbelow False show ?thesis by simp
    qed
  qed
  have nonnegB: "0 \<le> amountB (computeTokenAmounts L p lo hi)"
  proof (cases "p \<le> tickToPrice lo")
    case True
    with below show ?thesis by simp
  next
    case False
    note notbelow = this
    show ?thesis
    proof (cases "p \<ge> tickToPrice hi")
      case True
      with above L d2 show ?thesis by simp
    next
      case False
      have "sqrt (tickToPrice lo) \<le> sqrt p" using notbelow by simp
      then have "0 \<le> real_of_int L * (sqrt p - sqrt (tickToPrice lo))"
        using L by simp
      with inside notbelow False show ?thesis by simp
    qed
  qed
  from below above inside nonnegA nonnegB show ?thesis by blast
qed

text \<open>Liquidity 1000 at price 1 in the range from tick -10 to tick 10: the price is inside.\<close>

theorem computeTokenAmounts_cases_witness:
  "(0::int) \<le> 1000 \<and> (- 10::int) < 10
   \<and> tickToPrice (- 10) < 1 \<and> 1 < tickToPrice 10
   \<and> amountA (computeTokenAmounts 1000 1 (- 10) 10) = 1000 * (1 / sqrt 1 - 1 / sqrt (tickToPrice 10))
   \<and> amountB (computeTokenAmounts 1000 1 (- 10) 10) = 1000 * (sqrt 1 - sqrt (tickToPrice (- 10)))
   \<and> 0 \<le> amountA (computeTokenAmounts 1000 1 (- 10) 10)
   \<and> 0 \<le> amountB (computeTokenAmounts 1000 1 (- 10) 10)"
proof -
  have a: "tickToPrice (- 10) < 1"
    using tickToPrice_strict_mono [of "- 10" 0] by (simp add: tickToPrice_zero)
  have b: "1 < tickToPrice 10"
    using tickToPrice_strict_mono [of 0 10] by (simp add: tickToPrice_zero)
  show ?thesis
    using computeTokenAmounts_cases [of 1000 "- 10" 10 1] a b by simp
qed

subsection \<open>Rounding to a double\<close>


lemma to_double_zero: "to_double 0 = 0"
  by (simp add: to_double_def)







subsection \<open>computeSwapNeeded\<close>











section \<open>Properties of the state store\<close>

text \<open>
  Claim C7. For every bot state, \<open>updateStateAfterRebalance\<close> returns a state whose
  \<open>totalRebalances\<close> is the old one plus exactly 1, so it does not decrease; the position
  id, the two ticks, the liquidity (as decimal text) and the transaction digest are the
  arguments, and \<open>lastRebalanceTime\<close> is the current time. \<open>updateStateAfterRebalance\<close> is
  the only operation of the store that maps a state to a state. Loading when no state file
  exists gives the default state, whose \<open>totalRebalances\<close> is 0, and one recorded rebalance
  makes it 1.
\<close>

theorem updateStateAfterRebalance_records:
  "totalRebalances (updateStateAfterRebalance now st pid lo hi liq dg) = totalRebalances st + 1
   \<and> totalRebalances st \<le> totalRebalances (updateStateAfterRebalance now st pid lo hi liq dg)
   \<and> lastPositionId (updateStateAfterRebalance now st pid lo hi liq dg) = Some pid
   \<and> lastTickLower (updateStateAfterRebalance now st pid lo hi liq dg) = Some lo
   \<and> lastTickUpper (updateStateAfterRebalance now st pid lo hi liq dg) = Some hi
   \<and> lastLiquidity (updateStateAfterRebalance now st pid lo hi liq dg) = Some (int_toString liq)
   \<and> lastTxDigest (updateStateAfterRebalance now st pid lo hi liq dg) = Some dg
   \<and> lastRebalanceTime (updateStateAfterRebalance now st pid lo hi liq dg) = Some now
   \<and> (fs path = None \<longrightarrow> loadState parse fs path = DEFAULT_STATE)
   \<and> totalRebalances DEFAULT_STATE = 0
   \<and> totalRebalances (updateStateAfterRebalance now DEFAULT_STATE pid lo hi liq dg) = 1"
  by (simp add: updateStateAfterRebalance_def loadState_def DEFAULT_STATE_def)

text \<open>The first run: no state file, then one recorded rebalance.\<close>

theorem updateStateAfterRebalance_records_witness:
  "(Map.empty :: files) ''state.json'' = None
   \<and> totalRebalances (loadState (\<lambda>raw. None) Map.empty ''state.json'') = 0
   \<and> updateStateAfterRebalance 1700000000000 (loadState (\<lambda>raw. None) Map.empty ''state.json'')
        ''0xabc'' (- 160) 150 123456 ''digest1''
      = \<lparr>lastRebalanceTime = Some 1700000000000, lastPositionId = Some ''0xabc'',
         lastTickLower = Some (- 160), lastTickUpper = Some 150,
         lastLiquidity = Some ''123456'', totalRebalances = 1,
         lastTxDigest = Some ''digest1''\<rparr>"
  using updateStateAfterRebalance_records
          [of 1700000000000 DEFAULT_STATE "''0xabc''" "- 160" 150 123456 "''digest1''"
              Map.empty "''state.json''" "\<lambda>raw. None"]
  by (simp add: updateStateAfterRebalance_def DEFAULT_STATE_def int_toString_def
        nat_toString.simps digit_char_def)

section \<open>Properties of the concurrency guard\<close>

lemma checkConcurrency_alive:
  assumes "files d path = Some raw" and "parseInt rt (trim rt raw) = Some p"
    and "p \<noteq> process_pid rt" and "process_kill rt p = None"
  shows "checkConcurrency rt path d = (Inl (AnotherProcessRunning p path), d)"
  using assms by (simp add: checkConcurrency_def Let_def)

lemma checkConcurrency_dead:
  assumes "files d path = Some raw" and "parseInt rt (trim rt raw) = Some p"
    and "p \<noteq> process_pid rt" and "process_kill rt p = Some ''ESRCH''"
  shows "checkConcurrency rt path d = (Inr (), unlinkSync path d)"
  using assms by (simp add: checkConcurrency_def Let_def)

lemma checkConcurrency_ok_journal:
  assumes "checkConcurrency rt path d = (Inr u, d')"
  shows "d' = d \<or> d' = unlinkSync path d"
  using assms
  by (auto simp: checkConcurrency_def Let_def split: option.splits if_splits)

text \<open>
  Claim C9. For every lock path: when the lock file exists, the process id stored in it
  is the id of another process and the liveness probe finds that process alive,
  \<open>acquireLock\<close> fails with the error that another process is running and leaves the disk
  as it was; when the probe reports that there is no such process (\<open>ESRCH\<close>), the stale file
  is deleted and the lock is then written; and whenever \<open>acquireLock\<close> succeeds, the file at
  the lock path holds the id of the current process and no other file has changed.
\<close>

theorem acquireLock_cases:
  "(files d path = Some raw \<and> parseInt rt (trim rt raw) = Some p \<and> p \<noteq> process_pid rt
      \<and> process_kill rt p = None \<longrightarrow>
      acquireLock rt path d = (Inl (AnotherProcessRunning p path), d))
   \<and> (files d path = Some raw \<and> parseInt rt (trim rt raw) = Some p \<and> p \<noteq> process_pid rt
      \<and> process_kill rt p = Some ''ESRCH'' \<longrightarrow>
      fst (acquireLock rt path d) = Inr ()
      \<and> journal (snd (acquireLock rt path d)) =
          journal d @ [Unlink path, WriteFile path (int_toString (process_pid rt))])
   \<and> (fst (acquireLock rt path d) = Inr () \<longrightarrow>
      files (snd (acquireLock rt path d)) path = Some (int_toString (process_pid rt))
      \<and> (\<forall>q. q \<noteq> path \<longrightarrow> files (snd (acquireLock rt path d)) q = files d q))"
proof -
  have alive: "files d path = Some raw \<and> parseInt rt (trim rt raw) = Some p \<and> p \<noteq> process_pid rt
      \<and> process_kill rt p = None \<longrightarrow>
      acquireLock rt path d = (Inl (AnotherProcessRunning p path), d)"
    by (simp add: acquireLock_def checkConcurrency_alive)
  have dead: "files d path = Some raw \<and> parseInt rt (trim rt raw) = Some p \<and> p \<noteq> process_pid rt
      \<and> process_kill rt p = Some ''ESRCH'' \<longrightarrow>
      fst (acquireLock rt path d) = Inr ()
      \<and> journal (snd (acquireLock rt path d)) =
          journal d @ [Unlink path, WriteFile path (int_toString (process_pid rt))]"
    by (simp add: acquireLock_def checkConcurrency_dead unlinkSync_def writeFileSync_def)
  have ok: "fst (acquireLock rt path d) = Inr () \<longrightarrow>
      files (snd (acquireLock rt path d)) path = Some (int_toString (process_pid rt))
      \<and> (\<forall>q. q \<noteq> path \<longrightarrow> files (snd (acquireLock rt path d)) q = files d q)"
  proof (cases "checkConcurrency rt path d")
    case (Pair res d')
    show ?thesis
    proof (cases res)
      case (Inl e)
      with Pair show ?thesis by (simp add: acquireLock_def)
    next
      case (Inr u)
      with Pair checkConcurrency_ok_journal [of rt path d u d']
      show ?thesis
        by (auto simp: acquireLock_def writeFileSync_def unlinkSync_def)
    qed
  qed
  from alive dead ok show ?thesis by blast
qed

text \<open>
  The process 4242 finds a lock of the live process 1111 and fails; it finds a lock of the
  dead process 2222, deletes it and writes its own.
\<close>

theorem acquireLock_cases_witness:
  "acquireLock
     \<lparr>process_pid = 4242,
      process_kill = (\<lambda>p. if p = 1111 then None else Some ''ESRCH''),
      trim = (\<lambda>s. s),
      parseInt = (\<lambda>s. if s = ''1111'' then Some 1111 else if s = ''2222'' then Some 2222 else None)\<rparr>
     ''bot.lock''
     \<lparr>files = [''bot.lock'' \<mapsto> ''1111''], journal = []\<rparr>
   = (Inl (AnotherProcessRunning 1111 ''bot.lock''),
      \<lparr>files = [''bot.lock'' \<mapsto> ''1111''], journal = []\<rparr>)
   \<and> fst (acquireLock
     \<lparr>process_pid = 4242,
      process_kill = (\<lambda>p. if p = 1111 then None else Some ''ESRCH''),
      trim = (\<lambda>s. s),
      parseInt = (\<lambda>s. if s = ''1111'' then Some 1111 else if s = ''2222'' then Some 2222 else None)\<rparr>
     ''bot.lock''
     \<lparr>files = [''bot.lock'' \<mapsto> ''2222''], journal = []\<rparr>) = Inr ()
   \<and> journal (snd (acquireLock
     \<lparr>process_pid = 4242,
      process_kill = (\<lambda>p. if p = 1111 then None else Some ''ESRCH''),
      trim = (\<lambda>s. s),
      parseInt = (\<lambda>s. if s = ''1111'' then Some 1111 else if s = ''2222'' then Some 2222 else None)\<rparr>
     ''bot.lock''
     \<lparr>files = [''bot.lock'' \<mapsto> ''2222''], journal = []\<rparr>))
     = [Unlink ''bot.lock'', WriteFile ''bot.lock'' ''4242'']
   \<and> files (snd (acquireLock
     \<lparr>process_pid = 4242,
      process_kill = (\<lambda>p. if p = 1111 then None else Some ''ESRCH''),
      trim = (\<lambda>s. s),
      parseInt = (\<lambda>s. if s = ''1111'' then Some 1111 else if s = ''2222'' then Some 2222 else None)\<rparr>
     ''bot.lock''
     \<lparr>files = [''bot.lock'' \<mapsto> ''2222''], journal = []\<rparr>)) ''bot.lock'' = Some ''4242''"
  using acquireLock_cases
     [of "\<lparr>files = [''bot.lock'' \<mapsto> ''1111''], journal = []\<rparr>" "''bot.lock''" "''1111''"
         "\<lparr>process_pid = 4242,
      process_kill = (\<lambda>p. if p = 1111 then None else Some ''ESRCH''),
      trim = (\<lambda>s. s),
      parseInt = (\<lambda>s. if s = ''1111'' then Some 1111 else if s = ''2222'' then Some 2222 else None)\<rparr>" 1111]
    acquireLock_cases
     [of "\<lparr>files = [''bot.lock'' \<mapsto> ''2222''], journal = []\<rparr>" "''bot.lock''" "''2222''"
         "\<lparr>process_pid = 4242,
      process_kill = (\<lambda>p. if p = 1111 then None else Some ''ESRCH''),
      trim = (\<lambda>s. s),
      parseInt = (\<lambda>s. if s = ''1111'' then Some 1111 else if s = ''2222'' then Some 2222 else None)\<rparr>" 2222]
  by (simp add: int_toString_def nat_toString.simps digit_char_def acquireLock_def
        checkConcurrency_def unlinkSync_def writeFileSync_def)

section \<open>Properties of the transaction execution\<close>

subsection \<open>The retry loop\<close>

lemma failed_attempts_zero: "failed_attempts t gas a 0 = []"
  by (simp add: failed_attempts_def)

lemma failed_attempts_step:
  "failed_attempts t gas a (Suc k) =
     [Broadcast t gas, Sleep (backoffMs a 1000 30000)] @ failed_attempts t gas (Suc a) k"
proof -
  have "[a ..< a + Suc k] = a # [Suc a ..< Suc a + k]"
    by (subst upt_rec) simp
  then show ?thesis
    by (simp add: failed_attempts_def)
qed

lemma retry_loop_succeeds:
  assumes "\<forall>j<k. \<exists>e. attempt_outcome (signAndExecuteTransaction ch (broadcasts w + j)) = Inl e"
    and "attempt_outcome (signAndExecuteTransaction ch (broadcasts w + k)) = Inr dg"
    and "int (a + k) \<le> retries"
  shows "retry_loop ch retries t gas a lastErr w =
           (Inr \<lparr>result_digest = dg, result_dryRun = False\<rparr>,
            w\<lparr>trace := trace w @ failed_attempts t gas a k @ [Broadcast t gas],
              broadcasts := broadcasts w + k + 1\<rparr>)"
  using assms
proof (induction k arbitrary: a lastErr w)
  case 0
  then show ?case
    by (subst retry_loop.simps) (simp add: emit_def failed_attempts_zero)
next
  case (Suc k)
  from Suc.prems(1) obtain e where
    e: "attempt_outcome (signAndExecuteTransaction ch (broadcasts w)) = Inl e"
    by force
  define w2 where
    "w2 = emit (Sleep (backoffMs a 1000 30000)) ((emit (Broadcast t gas) w)\<lparr>broadcasts := broadcasts w + 1\<rparr>)"
  have b2: "broadcasts w2 = broadcasts w + 1" by (simp add: w2_def emit_def)
  have step: "retry_loop ch retries t gas a lastErr w = retry_loop ch retries t gas (a + 1) (Some e) w2"
    using Suc.prems(3) e by (subst retry_loop.simps) (simp add: w2_def Let_def)
  have p1: "\<forall>j<k. \<exists>e. attempt_outcome (signAndExecuteTransaction ch (broadcasts w2 + j)) = Inl e"
  proof (intro allI impI)
    fix j assume "j < k"
    then have "Suc j < Suc k" by simp
    with Suc.prems(1) have "\<exists>e. attempt_outcome (signAndExecuteTransaction ch (broadcasts w + Suc j)) = Inl e"
      by blast
    then show "\<exists>e. attempt_outcome (signAndExecuteTransaction ch (broadcasts w2 + j)) = Inl e"
      by (simp add: b2)
  qed
  have p2: "attempt_outcome (signAndExecuteTransaction ch (broadcasts w2 + k)) = Inr dg"
    using Suc.prems(2) by (simp add: b2)
  have p3: "int (a + 1 + k) \<le> retries" using Suc.prems(3) by simp
  have "retry_loop ch retries t gas (a + 1) (Some e) w2 =
           (Inr \<lparr>result_digest = dg, result_dryRun = False\<rparr>,
            w2\<lparr>trace := trace w2 @ failed_attempts t gas (a + 1) k @ [Broadcast t gas],
              broadcasts := broadcasts w2 + k + 1\<rparr>)"
    by (rule Suc.IH [OF p1 p2 p3])
  with step show ?case
    by (simp add: w2_def emit_def failed_attempts_step)
qed

lemma retry_loop_exhausted:
  assumes "\<forall>j<k. attempt_outcome (signAndExecuteTransaction ch (broadcasts w + j)) = Inl (errs j)"
    and "int (a + k) = retries + 1"
  shows "retry_loop ch retries t gas a lastErr w =
           (Inl (if k = 0 then (case lastErr of None \<Rightarrow> ThrownUndefined | Some e \<Rightarrow> e)
                 else errs (k - 1)),
            w\<lparr>trace := trace w @ failed_attempts t gas a k,
              broadcasts := broadcasts w + k\<rparr>)"
  using assms
proof (induction k arbitrary: a lastErr w errs)
  case 0
  then show ?case
    by (subst retry_loop.simps) (simp add: failed_attempts_zero split: option.splits)
next
  case (Suc k)
  have e: "attempt_outcome (signAndExecuteTransaction ch (broadcasts w)) = Inl (errs 0)"
    using Suc.prems(1) by force
  define w2 where
    "w2 = emit (Sleep (backoffMs a 1000 30000)) ((emit (Broadcast t gas) w)\<lparr>broadcasts := broadcasts w + 1\<rparr>)"
  have b2: "broadcasts w2 = broadcasts w + 1" by (simp add: w2_def emit_def)
  have step: "retry_loop ch retries t gas a lastErr w = retry_loop ch retries t gas (a + 1) (Some (errs 0)) w2"
    using Suc.prems(2) e by (subst retry_loop.simps) (simp add: w2_def Let_def)
  have p1: "\<forall>j<k. attempt_outcome (signAndExecuteTransaction ch (broadcasts w2 + j)) = Inl (errs (Suc j))"
  proof (intro allI impI)
    fix j assume "j < k"
    then have "Suc j < Suc k" by simp
    with Suc.prems(1) have "attempt_outcome (signAndExecuteTransaction ch (broadcasts w + Suc j)) = Inl (errs (Suc j))"
      by blast
    then show "attempt_outcome (signAndExecuteTransaction ch (broadcasts w2 + j)) = Inl (errs (Suc j))"
      by (simp add: b2)
  qed
  have p3: "int (a + 1 + k) = retries + 1" using Suc.prems(2) by simp
  have "retry_loop ch retries t gas (a + 1) (Some (errs 0)) w2 =
           (Inl (if k = 0 then (case Some (errs 0) of None \<Rightarrow> ThrownUndefined | Some e \<Rightarrow> e)
                 else errs (Suc (k - 1))),
            w2\<lparr>trace := trace w2 @ failed_attempts t gas (a + 1) k,
              broadcasts := broadcasts w2 + k\<rparr>)"
    by (rule Suc.IH [OF p1 p3])
  with step show ?case
    by (cases k) (simp_all add: w2_def emit_def failed_attempts_step)
qed

lemma count_broadcasts_append:
  "count_broadcasts (xs @ ys) = count_broadcasts xs + count_broadcasts ys"
  by (simp add: count_broadcasts_def)

lemma retry_loop_bounded:
  "count_broadcasts (trace (snd (retry_loop ch retries t gas a lastErr w)))
     \<le> count_broadcasts (trace w) + nat (retries + 1 - int a)"
proof (induction ch retries t gas a lastErr w rule: retry_loop.induct)
  case (1 ch retries t gas attempt lastErr w)
  show ?case
  proof (cases "int attempt \<le> retries")
    case False
    then show ?thesis
      by (subst retry_loop.simps) (simp split: option.splits)
  next
    case True
    note le = this
    show ?thesis
    proof (cases "attempt_outcome (signAndExecuteTransaction ch (broadcasts w))")
      case (Inr dg)
      with le show ?thesis
        by (subst retry_loop.simps)
           (simp add: Let_def emit_def count_broadcasts_append, simp add: count_broadcasts_def)
    next
      case (Inl err)
      define w1 where "w1 = (emit (Broadcast t gas) w)\<lparr>broadcasts := broadcasts w + 1\<rparr>"
      have ih: "count_broadcasts (trace (snd (retry_loop ch retries t gas (attempt + 1) (Some err)
                   (emit (Sleep (backoffMs attempt 1000 30000)) w1))))
             \<le> count_broadcasts (trace (emit (Sleep (backoffMs attempt 1000 30000)) w1))
                 + nat (retries + 1 - int (attempt + 1))"
        using "1.IH" [OF le w1_def Inl] .
      have c: "count_broadcasts (trace (emit (Sleep (backoffMs attempt 1000 30000)) w1))
                 = count_broadcasts (trace w) + 1"
        by (simp add: w1_def emit_def count_broadcasts_def)
      have s: "retry_loop ch retries t gas attempt lastErr w =
                 retry_loop ch retries t gas (attempt + 1) (Some err)
                   (emit (Sleep (backoffMs attempt 1000 30000)) w1)"
        using le Inl by (subst retry_loop.simps) (simp add: Let_def w1_def)
      from ih c s le show ?thesis by simp
    qed
  qed
qed

lemma flaky_run:
  "retry_loop flaky_chain 3 t gas 0 None fresh_world =
     (Inr \<lparr>result_digest = ''digest1'', result_dryRun = False\<rparr>,
      \<lparr>trace = [Broadcast t gas, Sleep 1000, Broadcast t gas],
       broadcasts = 2, balanceQueries = 0\<rparr>)"
  apply (subst retry_loop.simps)
  apply (simp add: Let_def flaky_chain_def attempt_outcome_def fresh_world_def emit_def backoffMs_def)
  apply (subst retry_loop.simps)
  apply (simp add: Let_def flaky_chain_def attempt_outcome_def fresh_world_def emit_def backoffMs_def)
  done

lemma dead_run:
  "retry_loop dead_chain 1 t gas 0 None fresh_world =
     (Inl (External ''rpc unavailable''),
      \<lparr>trace = [Broadcast t gas, Sleep 1000, Broadcast t gas, Sleep 2000],
       broadcasts = 2, balanceQueries = 0\<rparr>)"
  apply (subst retry_loop.simps)
  apply (simp add: Let_def dead_chain_def attempt_outcome_def fresh_world_def emit_def backoffMs_def)
  apply (subst retry_loop.simps)
  apply (simp add: Let_def dead_chain_def attempt_outcome_def fresh_world_def emit_def backoffMs_def)
  apply (subst retry_loop.simps)
  apply (simp add: Let_def dead_chain_def attempt_outcome_def fresh_world_def emit_def backoffMs_def)
  done

text \<open>
  Claim C8. In live mode with the confirmation flag set, \<open>executeTransaction\<close> broadcasts
  at most \<open>maxRetries + 1\<close> times. An execution whose status is not \<open>success\<close> counts as a
  failed attempt, like a rejected broadcast. When the attempts before attempt \<open>k\<close> fail and
  attempt \<open>k \<le> maxRetries\<close> succeeds, the effects are the \<open>k\<close> failed broadcasts, each followed
  by the sleep \<open>backoffMs\<close> of its attempt number, and one more broadcast, and the result is
  the digest of that attempt. When all \<open>maxRetries + 1\<close> attempts fail, the error of the
  last attempt is raised, after the sleep that follows it. With a negative \<open>maxRetries\<close>
  no attempt is made and the value thrown is \<^verbatim>\<open>undefined\<close>.
\<close>

theorem executeTransaction_retries:
  assumes "\<not> dryRun cfg" and "confirm cfg"
  shows "count_broadcasts (trace (snd (executeTransaction ch cfg t w)))
           \<le> count_broadcasts (trace w) + nat (maxRetries cfg + 1)
       \<and> (\<forall>resp. effects_status resp \<noteq> Some ''success'' \<longrightarrow>
             (\<exists>m. attempt_outcome (Resolves resp) = Inl (TransactionFailed m)))
       \<and> (\<forall>resp. effects_status resp = Some ''success'' \<longrightarrow>
             attempt_outcome (Resolves resp) = Inr (response_digest resp))
       \<and> (\<forall>k dg. int k \<le> maxRetries cfg
             \<and> (\<forall>j<k. \<exists>e. attempt_outcome (signAndExecuteTransaction ch (broadcasts w + j)) = Inl e)
             \<and> attempt_outcome (signAndExecuteTransaction ch (broadcasts w + k)) = Inr dg \<longrightarrow>
             executeTransaction ch cfg t w =
               (Inr \<lparr>result_digest = dg, result_dryRun = False\<rparr>,
                w\<lparr>trace := trace w @ failed_attempts t (gasBudget cfg) 0 k
                              @ [Broadcast t (gasBudget cfg)],
                  broadcasts := broadcasts w + k + 1\<rparr>))
       \<and> (\<forall>errs. 0 \<le> maxRetries cfg
             \<and> (\<forall>j<nat (maxRetries cfg) + 1.
                   attempt_outcome (signAndExecuteTransaction ch (broadcasts w + j)) = Inl (errs j)) \<longrightarrow>
             executeTransaction ch cfg t w =
               (Inl (errs (nat (maxRetries cfg))),
                w\<lparr>trace := trace w @ failed_attempts t (gasBudget cfg) 0 (nat (maxRetries cfg) + 1),
                  broadcasts := broadcasts w + (nat (maxRetries cfg) + 1)\<rparr>))
       \<and> (maxRetries cfg < 0 \<longrightarrow> executeTransaction ch cfg t w = (Inl ThrownUndefined, w))"
proof -
  have live: "executeTransaction ch cfg t w = retry_loop ch (maxRetries cfg) t (gasBudget cfg) 0 None w"
    using assms by (simp add: executeTransaction_def)
  have bound: "count_broadcasts (trace (snd (executeTransaction ch cfg t w)))
           \<le> count_broadcasts (trace w) + nat (maxRetries cfg + 1)"
    using retry_loop_bounded [of ch "maxRetries cfg" t "gasBudget cfg" 0 None w]
    by (simp add: live)
  have failure: "\<forall>resp. effects_status resp \<noteq> Some ''success'' \<longrightarrow>
             (\<exists>m. attempt_outcome (Resolves resp) = Inl (TransactionFailed m))"
    by (simp add: attempt_outcome_def)
  have success: "\<forall>resp. effects_status resp = Some ''success'' \<longrightarrow>
             attempt_outcome (Resolves resp) = Inr (response_digest resp)"
    by (simp add: attempt_outcome_def)
  have first: "\<forall>k dg. int k \<le> maxRetries cfg
             \<and> (\<forall>j<k. \<exists>e. attempt_outcome (signAndExecuteTransaction ch (broadcasts w + j)) = Inl e)
             \<and> attempt_outcome (signAndExecuteTransaction ch (broadcasts w + k)) = Inr dg \<longrightarrow>
             executeTransaction ch cfg t w =
               (Inr \<lparr>result_digest = dg, result_dryRun = False\<rparr>,
                w\<lparr>trace := trace w @ failed_attempts t (gasBudget cfg) 0 k
                              @ [Broadcast t (gasBudget cfg)],
                  broadcasts := broadcasts w + k + 1\<rparr>)"
  proof (intro allI impI, elim conjE)
    fix k dg
    assume k: "int k \<le> maxRetries cfg"
      and f: "\<forall>j<k. \<exists>e. attempt_outcome (signAndExecuteTransaction ch (broadcasts w + j)) = Inl e"
      and s: "attempt_outcome (signAndExecuteTransaction ch (broadcasts w + k)) = Inr dg"
    from k have k': "int (0 + k) \<le> maxRetries cfg" by simp
    show "executeTransaction ch cfg t w =
               (Inr \<lparr>result_digest = dg, result_dryRun = False\<rparr>,
                w\<lparr>trace := trace w @ failed_attempts t (gasBudget cfg) 0 k
                              @ [Broadcast t (gasBudget cfg)],
                  broadcasts := broadcasts w + k + 1\<rparr>)"
      unfolding live by (rule retry_loop_succeeds [OF f s k'])
  qed
  have last: "\<forall>errs. 0 \<le> maxRetries cfg
             \<and> (\<forall>j<nat (maxRetries cfg) + 1.
                   attempt_outcome (signAndExecuteTransaction ch (broadcasts w + j)) = Inl (errs j)) \<longrightarrow>
             executeTransaction ch cfg t w =
               (Inl (errs (nat (maxRetries cfg))),
                w\<lparr>trace := trace w @ failed_attempts t (gasBudget cfg) 0 (nat (maxRetries cfg) + 1),
                  broadcasts := broadcasts w + (nat (maxRetries cfg) + 1)\<rparr>)"
  proof (intro allI impI, elim conjE)
    fix errs
    assume m: "0 \<le> maxRetries cfg"
      and f: "\<forall>j<nat (maxRetries cfg) + 1.
                   attempt_outcome (signAndExecuteTransaction ch (broadcasts w + j)) = Inl (errs j)"
    from m have k: "int (0 + (nat (maxRetries cfg) + 1)) = maxRetries cfg + 1" by simp
    show "executeTransaction ch cfg t w =
               (Inl (errs (nat (maxRetries cfg))),
                w\<lparr>trace := trace w @ failed_attempts t (gasBudget cfg) 0 (nat (maxRetries cfg) + 1),
                  broadcasts := broadcasts w + (nat (maxRetries cfg) + 1)\<rparr>)"
      unfolding live using retry_loop_exhausted [OF f k, of t "gasBudget cfg" None] by simp
  qed
  have never: "maxRetries cfg < 0 \<longrightarrow> executeTransaction ch cfg t w = (Inl ThrownUndefined, w)"
    unfolding live by (subst retry_loop.simps) simp
  from bound failure success first last never show ?thesis by blast
qed

text \<open>
  With three retries, a first execution that fails on chain is followed by a sleep of
  1000 ms and a second broadcast, whose digest is returned. With one retry and a node that
  rejects everything, two broadcasts are made and the rejection is raised.
\<close>

theorem executeTransaction_retries_witness:
  "\<not> dryRun live_config \<and> confirm live_config
   \<and> executeTransaction flaky_chain live_config (CollectFeeTx ''0xpos'') fresh_world =
       (Inr \<lparr>result_digest = ''digest1'', result_dryRun = False\<rparr>,
        \<lparr>trace = [Broadcast (CollectFeeTx ''0xpos'') 500000000, Sleep 1000,
                  Broadcast (CollectFeeTx ''0xpos'') 500000000],
         broadcasts = 2, balanceQueries = 0\<rparr>)
   \<and> executeTransaction dead_chain (live_config\<lparr>maxRetries := 1\<rparr>) (CollectFeeTx ''0xpos'') fresh_world =
       (Inl (External ''rpc unavailable''),
        \<lparr>trace = [Broadcast (CollectFeeTx ''0xpos'') 500000000, Sleep 1000,
                  Broadcast (CollectFeeTx ''0xpos'') 500000000, Sleep 2000],
         broadcasts = 2, balanceQueries = 0\<rparr>)"
  using executeTransaction_retries [of live_config flaky_chain "CollectFeeTx ''0xpos''" fresh_world]
  by (simp add: live_config_def executeTransaction_def flaky_run dead_run)

subsection \<open>The confirmation gate\<close>

lemma count_broadcasts_gated_step: "count_broadcasts (gated_step t) = 0"
  by (simp add: count_broadcasts_def gated_step_def)

lemma executeTransaction_unconfirmed:
  assumes "\<not> dryRun cfg" and "\<not> confirm cfg"
  shows "executeTransaction ch cfg t w =
           (Inr \<lparr>result_digest = ''aborted-no-confirm'', result_dryRun = False\<rparr>,
            emit (AbortNoConfirm t) w)"
  using assms by (simp add: executeTransaction_def)

lemma gated_build_execute:
  assumes "\<not> dryRun cfg" and "\<not> confirm cfg" and "sdkBuild ch t = None"
  shows "and_then (build ch t) (\<lambda>b. and_then (executeTransaction ch cfg b) f) w =
           f \<lparr>result_digest = ''aborted-no-confirm'', result_dryRun = False\<rparr>
             (w\<lparr>trace := trace w @ gated_step t\<rparr>)"
  using assms
  by (simp add: and_then_def build_def executeTransaction_unconfirmed emit_def gated_step_def)

lemma plan_swap_empty_wallet: "plan_swap cfg liq lo hi pool 0 0 = None"
  by (simp add: plan_swap_def computeSwapNeeded_def Let_def Number_bigint_def fadd_def
        to_double_zero)

text \<open>
  Claim C10. In live mode with the confirmation flag unset, \<open>executeTransaction\<close> makes no
  broadcast and returns, without raising, the result with the digest \<open>aborted-no-confirm\<close>.
  So a rebalance whose collaborators answer does not stop at the first gated step: it
  builds and gates the collect, the remove, the swap (when one is planned) and the add
  step in turn, broadcasts nothing, and returns \<open>aborted-no-confirm\<close> as the digest of the
  rebalance.
\<close>

theorem unconfirmed_rebalance_runs_every_step:
  assumes "\<not> dryRun cfg" and "\<not> confirm cfg"
  shows "executeTransaction ch cfg t w =
           (Inr \<lparr>result_digest = ''aborted-no-confirm'', result_dryRun = False\<rparr>,
            emit (AbortNoConfirm t) w)
       \<and> count_broadcasts (trace (snd (executeTransaction ch cfg t w))) = count_broadcasts (trace w)
       \<and> ((\<forall>b. sdkBuild ch b = None) \<and> fetchPoolState ch = Inr pool
            \<and> getTokenBalances ch (balanceQueries w) = Inr (bA, bB)
            \<and> getTokenBalances ch (balanceQueries w + 1) = Inr (nA, nB) \<longrightarrow>
          fst (runRebalance ch cfg pid lo hi liq w) = Inr ''aborted-no-confirm''
          \<and> trace (snd (runRebalance ch cfg pid lo hi liq w)) =
              trace w @ gated_step (CollectFeeTx pid)
                @ gated_step (RemoveLiquidityTx pid liq (slippageBps cfg))
                @ [FetchPool, QueryBalances]
                @ (case plan_swap cfg liq lo hi pool bA bB of
                     None \<Rightarrow> []
                   | Some plan \<Rightarrow>
                       gated_step (SwapTx (swapAtoB plan) (swapAmount plan) (slippageBps cfg)))
                @ [QueryBalances]
                @ gated_step (AddLiquidityTx pid lo hi nA nB (slippageBps cfg))
          \<and> count_broadcasts (trace (snd (runRebalance ch cfg pid lo hi liq w)))
              = count_broadcasts (trace w))"
proof -
  note gate = executeTransaction_unconfirmed [OF assms]
  have one: "count_broadcasts (trace (snd (executeTransaction ch cfg t w))) = count_broadcasts (trace w)"
    by (simp add: gate emit_def count_broadcasts_def)
  have seq: "fst (runRebalance ch cfg pid lo hi liq w) = Inr ''aborted-no-confirm''
          \<and> trace (snd (runRebalance ch cfg pid lo hi liq w)) =
              trace w @ gated_step (CollectFeeTx pid)
                @ gated_step (RemoveLiquidityTx pid liq (slippageBps cfg))
                @ [FetchPool, QueryBalances]
                @ (case plan_swap cfg liq lo hi pool bA bB of
                     None \<Rightarrow> []
                   | Some plan \<Rightarrow>
                       gated_step (SwapTx (swapAtoB plan) (swapAmount plan) (slippageBps cfg)))
                @ [QueryBalances]
                @ gated_step (AddLiquidityTx pid lo hi nA nB (slippageBps cfg))"
    if ext: "(\<forall>b. sdkBuild ch b = None)" "fetchPoolState ch = Inr pool"
      "getTokenBalances ch (balanceQueries w) = Inr (bA, bB)"
      "getTokenBalances ch (balanceQueries w + 1) = Inr (nA, nB)"
  proof (cases "plan_swap cfg liq lo hi pool bA bB")
    case None
    with ext show ?thesis
      unfolding runRebalance_def
      by (simp add: gated_build_execute [OF assms] swap_step_def)
         (simp add: and_then_def fetchPool_def queryBalances_def emit_def build_def gate gated_step_def)
  next
    case (Some plan)
    with ext show ?thesis
      unfolding runRebalance_def
      by (simp add: gated_build_execute [OF assms] swap_step_def)
         (simp add: and_then_def fetchPool_def queryBalances_def emit_def build_def gate gated_step_def)
  qed
  have cnt: "count_broadcasts (trace (snd (runRebalance ch cfg pid lo hi liq w))) = count_broadcasts (trace w)"
    if ext: "(\<forall>b. sdkBuild ch b = None)" "fetchPoolState ch = Inr pool"
      "getTokenBalances ch (balanceQueries w) = Inr (bA, bB)"
      "getTokenBalances ch (balanceQueries w + 1) = Inr (nA, nB)"
    using seq [OF ext]
    by (simp add: count_broadcasts_def gated_step_def split: option.splits)
  from gate one seq cnt show ?thesis by blast
qed

text \<open>A rebalance to the range from -160 to 150 with an empty wallet and the flag unset.\<close>

theorem unconfirmed_rebalance_runs_every_step_witness:
  "\<not> dryRun unconfirmed_config \<and> \<not> confirm unconfirmed_config
   \<and> fst (runRebalance flaky_chain unconfirmed_config ''0xpos'' (- 160) 150 1000000 fresh_world)
       = Inr ''aborted-no-confirm''
   \<and> trace (snd (runRebalance flaky_chain unconfirmed_config ''0xpos'' (- 160) 150 1000000 fresh_world))
       = [SdkBuild (CollectFeeTx ''0xpos''), AbortNoConfirm (CollectFeeTx ''0xpos''),
          SdkBuild (RemoveLiquidityTx ''0xpos'' 1000000 50),
          AbortNoConfirm (RemoveLiquidityTx ''0xpos'' 1000000 50),
          FetchPool, QueryBalances, QueryBalances,
          SdkBuild (AddLiquidityTx ''0xpos'' (- 160) 150 0 0 50),
          AbortNoConfirm (AddLiquidityTx ''0xpos'' (- 160) 150 0 0 50)]
   \<and> count_broadcasts
        (trace (snd (runRebalance flaky_chain unconfirmed_config ''0xpos'' (- 160) 150 1000000 fresh_world)))
       = 0"
  using unconfirmed_rebalance_runs_every_step
    [where cfg = unconfirmed_config and ch = flaky_chain and w = fresh_world
       and pool = sample_pool
       and bA = 0 and bB = 0 and nA = 0 and nB = 0
       and pid = "''0xpos''" and lo = "- 160" and hi = 150 and liq = 1000000]
  by (simp add: unconfirmed_config_def live_config_def flaky_chain_def fresh_world_def
        plan_swap_empty_wallet gated_step_def count_broadcasts_def)

section \<open>Properties of the range computation\<close>

subsection \<open>The raw tick and the powers of the tick base\<close>

text \<open>
  The floor and the ceiling of \<open>ln p / ln 1.0001 / s\<close> are decided by comparing \<open>p\<close> with
  prices of ticks, and the price of a tick is a power of \<open>1.0001\<close>, which Bernoulli's
  inequality bounds from both sides.
\<close>

lemma LOG_TICK_BASE_pos: "0 < LOG_TICK_BASE"
  by (simp add: LOG_TICK_BASE_def TICK_BASE_def)

lemma tickToPrice_exp: "tickToPrice k = exp (real_of_int k * LOG_TICK_BASE)"
  by (simp add: tickToPrice_def powr_def TICK_BASE_def LOG_TICK_BASE_def)

lemma tickToPrice_le_iff:
  assumes "0 < p"
  shows "tickToPrice k \<le> p \<longleftrightarrow> real_of_int k * LOG_TICK_BASE \<le> ln p"
proof -
  have "tickToPrice k \<le> p \<longleftrightarrow> exp (real_of_int k * LOG_TICK_BASE) \<le> exp (ln p)"
    using assms by (simp add: tickToPrice_exp)
  then show ?thesis by (simp only: exp_le_cancel_iff)
qed

lemma tickToPrice_ge_iff:
  assumes "0 < p"
  shows "p \<le> tickToPrice k \<longleftrightarrow> ln p \<le> real_of_int k * LOG_TICK_BASE"
proof -
  have "p \<le> tickToPrice k \<longleftrightarrow> exp (ln p) \<le> exp (real_of_int k * LOG_TICK_BASE)"
    using assms by (simp add: tickToPrice_exp)
  then show ?thesis by (simp only: exp_le_cancel_iff)
qed

lemma raw_tick_ge_iff:
  assumes "0 < p" and "0 < s"
  shows "real_of_int n \<le> ln p / LOG_TICK_BASE / real_of_int s \<longleftrightarrow> tickToPrice (n * s) \<le> p"
proof -
  have s: "0 < real_of_int s" using assms(2) by simp
  have "real_of_int n \<le> ln p / LOG_TICK_BASE / real_of_int s
          \<longleftrightarrow> real_of_int n * real_of_int s \<le> ln p / LOG_TICK_BASE"
    by (simp only: pos_le_divide_eq [OF s])
  also have "\<dots> \<longleftrightarrow> real_of_int n * real_of_int s * LOG_TICK_BASE \<le> ln p"
    by (simp only: pos_le_divide_eq [OF LOG_TICK_BASE_pos])
  also have "\<dots> \<longleftrightarrow> real_of_int (n * s) * LOG_TICK_BASE \<le> ln p"
    by simp
  also have "\<dots> \<longleftrightarrow> tickToPrice (n * s) \<le> p"
    by (simp only: tickToPrice_le_iff [OF assms(1)])
  finally show ?thesis .
qed

lemma raw_tick_le_iff:
  assumes "0 < p" and "0 < s"
  shows "ln p / LOG_TICK_BASE / real_of_int s \<le> real_of_int n \<longleftrightarrow> p \<le> tickToPrice (n * s)"
proof -
  have s: "0 < real_of_int s" using assms(2) by simp
  have "ln p / LOG_TICK_BASE / real_of_int s \<le> real_of_int n
          \<longleftrightarrow> ln p / LOG_TICK_BASE \<le> real_of_int n * real_of_int s"
    by (simp only: pos_divide_le_eq [OF s])
  also have "\<dots> \<longleftrightarrow> ln p \<le> real_of_int n * real_of_int s * LOG_TICK_BASE"
    by (simp only: pos_divide_le_eq [OF LOG_TICK_BASE_pos])
  also have "\<dots> \<longleftrightarrow> ln p \<le> real_of_int (n * s) * LOG_TICK_BASE"
    by simp
  also have "\<dots> \<longleftrightarrow> p \<le> tickToPrice (n * s)"
    by (simp only: tickToPrice_ge_iff [OF assms(1)])
  finally show ?thesis .
qed

lemma floor_raw_tick:
  assumes "0 < p" and "0 < s"
    and "tickToPrice (n * s) \<le> p"
    and "p < tickToPrice ((n + 1) * s)"
  shows "\<lfloor>ln p / LOG_TICK_BASE / real_of_int s\<rfloor> = n"
proof -
  have a: "real_of_int n \<le> ln p / LOG_TICK_BASE / real_of_int s"
    using assms(3) by (simp only: raw_tick_ge_iff [OF assms(1,2)])
  have "\<not> real_of_int (n + 1) \<le> ln p / LOG_TICK_BASE / real_of_int s"
    using assms(4) by (simp only: raw_tick_ge_iff [OF assms(1,2)] not_le)
  then have b: "ln p / LOG_TICK_BASE / real_of_int s < real_of_int n + 1"
    by simp
  from a b show ?thesis by (simp add: floor_eq_iff)
qed

lemma ceiling_raw_tick:
  assumes "0 < p" and "0 < s"
    and "tickToPrice ((n - 1) * s) < p"
    and "p \<le> tickToPrice (n * s)"
  shows "\<lceil>ln p / LOG_TICK_BASE / real_of_int s\<rceil> = n"
proof -
  have a: "ln p / LOG_TICK_BASE / real_of_int s \<le> real_of_int n"
    using assms(4) by (simp only: raw_tick_le_iff [OF assms(1,2)])
  have "\<not> ln p / LOG_TICK_BASE / real_of_int s \<le> real_of_int (n - 1)"
    using assms(3) by (simp only: raw_tick_le_iff [OF assms(1,2)] not_le)
  then have b: "real_of_int n - 1 < ln p / LOG_TICK_BASE / real_of_int s"
    by simp
  from a b show ?thesis by (simp add: ceiling_eq_iff)
qed

lemma TICK_BASE_pos: "0 < TICK_BASE"
  by (simp add: TICK_BASE_def)

lemma tickToPrice_nat: "tickToPrice (int k) = TICK_BASE ^ k"
  by (simp add: tickToPrice_def powr_realpow [OF TICK_BASE_pos])

lemma tickToPrice_neg: "tickToPrice (- int k) = 1 / TICK_BASE ^ k"
proof -
  have "tickToPrice (- int k) = TICK_BASE powr (- real k)"
    by (simp add: tickToPrice_def)
  also have "\<dots> = inverse (TICK_BASE powr real k)"
    by (rule powr_minus)
  also have "\<dots> = inverse (TICK_BASE ^ k)"
    by (simp only: powr_realpow [OF TICK_BASE_pos])
  finally show ?thesis by (simp add: inverse_eq_divide)
qed

lemma tick_power_lower: "1 + real k / 10000 \<le> TICK_BASE ^ k"
proof -
  have "1 + real k * (1 / 10000) \<le> (1 + 1 / 10000) ^ k"
    by (rule Bernoulli_inequality) simp
  then show ?thesis by (simp add: TICK_BASE_def)
qed

lemma tick_power_upper:
  assumes "0 < k"
  shows "(1 - real k / 10000) * TICK_BASE ^ k < 1"
proof -
  have "1 + real k * (- (1 / 10000)) \<le> (1 + - (1 / 10000)) ^ k"
    by (rule Bernoulli_inequality) simp
  then have "1 - real k / 10000 \<le> (9999 / 10000) ^ k"
    by simp
  moreover have "0 \<le> TICK_BASE ^ k"
    using TICK_BASE_pos by simp
  ultimately have "(1 - real k / 10000) * TICK_BASE ^ k \<le> (9999 / 10000) ^ k * TICK_BASE ^ k"
    by (rule mult_right_mono)
  also have "\<dots> = (99999999 / 100000000) ^ k"
    by (simp add: TICK_BASE_def power_mult_distrib [symmetric])
  also have "\<dots> \<le> (99999999 / 100000000) ^ 1"
    by (rule power_decreasing) (use assms in simp_all)
  also have "\<dots> < 1" by simp
  finally show ?thesis .
qed

text \<open>The band of 1.5% around the price 1, with spacing 10: the ticks -160 and 150.\<close>

lemma sample_lower_tick: "priceToTick (197 / 200) 10 Floor = Inr (- 160)"
proof -
  define T160 where "T160 = TICK_BASE ^ 160"
  define T150 where "T150 = TICK_BASE ^ 150"
  have l160: "1 + 160 / 10000 \<le> T160"
    using tick_power_lower [of 160] by (simp add: T160_def)
  have u150: "(1 - 150 / 10000) * T150 < 1"
    using tick_power_upper [of 150] by (simp add: T150_def)
  have pos: "0 < T160" "0 < T150"
    using TICK_BASE_pos by (simp_all add: T160_def T150_def)
  have e160: "tickToPrice (- 160) = 1 / T160"
    using tickToPrice_neg [of 160] by (simp add: T160_def)
  have e150: "tickToPrice (- 150) = 1 / T150"
    using tickToPrice_neg [of 150] by (simp add: T150_def)
  have lo: "tickToPrice (- 16 * 10) \<le> 197 / 200"
    using l160 pos by (simp add: e160 field_simps)
  have hi: "197 / 200 < tickToPrice ((- 16 + 1) * 10)"
    using u150 pos by (simp add: e150 field_simps)
  have "\<lfloor>ln (197 / 200) / LOG_TICK_BASE / real_of_int 10\<rfloor> = - 16"
    by (rule floor_raw_tick [OF _ _ lo hi]) simp_all
  then show ?thesis
    by (simp add: priceToTick_def clampTick_def MIN_TICK_def MAX_TICK_def)
qed

lemma sample_upper_tick: "priceToTick (203 / 200) 10 Ceil = Inr 150"
proof -
  define T140 where "T140 = TICK_BASE ^ 140"
  define T150 where "T150 = TICK_BASE ^ 150"
  have l150: "1 + 150 / 10000 \<le> T150"
    using tick_power_lower [of 150] by (simp add: T150_def)
  have u140: "(1 - 140 / 10000) * T140 < 1"
    using tick_power_upper [of 140] by (simp add: T140_def)
  have e140: "tickToPrice 140 = T140"
    using tickToPrice_nat [of 140] by (simp add: T140_def)
  have e150: "tickToPrice 150 = T150"
    using tickToPrice_nat [of 150] by (simp add: T150_def)
  have lo: "tickToPrice ((15 - 1) * 10) < 203 / 200"
    using u140 by (simp add: e140)
  have hi: "203 / 200 \<le> tickToPrice (15 * 10)"
    using l150 by (simp add: e150)
  have "\<lceil>ln (203 / 200) / LOG_TICK_BASE / real_of_int 10\<rceil> = 15"
    by (rule ceiling_raw_tick [OF _ _ lo hi]) simp_all
  then show ?thesis
    by (simp add: priceToTick_def clampTick_def MIN_TICK_def MAX_TICK_def)
qed

lemma sample_range: "computeNewTickRange 1 (3 / 2) 10 = Inr (- 160, 150)"
  by (simp add: computeNewTickRange_def sample_lower_tick sample_upper_tick)

subsection \<open>computeNewTickRange\<close>

lemma computeNewTickRange_ordered:
  assumes "computeNewTickRange price band s = Inr (l, u)"
  shows "l < u"
    and "priceToTick (price * (1 - band / 100)) s Floor = Inr l"
    and "priceToTick (price * (1 + band / 100)) s Ceil = Inr u"
  using assms
  by (auto simp: computeNewTickRange_def Let_def split: sum.splits if_splits)

text \<open>
  Claim C2, as amended. For every current price above zero and positive tick spacing:
  when the band is strictly between -100 and 100 percent, both band prices are positive,
  \<open>tickLower\<close> is \<open>priceToTick\<close> of the lower band price rounded down and \<open>tickUpper\<close> is
  \<open>priceToTick\<close> of the upper band price rounded up, and \<open>computeNewTickRange\<close> returns
  the pair when \<open>tickLower < tickUpper\<close> and fails with the invalid-range error otherwise;
  when the band is at least 100 percent or at most -100 percent, a band price is not
  positive and \<open>computeNewTickRange\<close> fails with the error of \<open>priceToTick\<close>. Every range
  it returns has \<open>tickLower < tickUpper\<close> and consists of those two ticks.
\<close>

theorem computeNewTickRange_cases:
  assumes "0 < price" and "0 < s"
  shows "(- 100 < band \<and> band < 100 \<longrightarrow>
           (\<exists>l u. priceToTick (price * (1 - band / 100)) s Floor = Inr l
                \<and> priceToTick (price * (1 + band / 100)) s Ceil = Inr u
                \<and> computeNewTickRange price band s =
                    (if l < u then Inr (l, u) else Inl (InvalidTickRange l u))))
       \<and> (band \<le> - 100 \<or> 100 \<le> band \<longrightarrow>
           computeNewTickRange price band s = Inl PriceNotPositive)
       \<and> (\<forall>l u. computeNewTickRange price band s = Inr (l, u) \<longrightarrow>
             l < u
           \<and> priceToTick (price * (1 - band / 100)) s Floor = Inr l
           \<and> priceToTick (price * (1 + band / 100)) s Ceil = Inr u)"
proof -
  have inside: "\<exists>l u. priceToTick (price * (1 - band / 100)) s Floor = Inr l
                \<and> priceToTick (price * (1 + band / 100)) s Ceil = Inr u
                \<and> computeNewTickRange price band s =
                    (if l < u then Inr (l, u) else Inl (InvalidTickRange l u))"
    if band: "- 100 < band" "band < 100"
  proof -
    have "0 < 1 - band / 100" and "0 < 1 + band / 100" using band by simp_all
    then have lp: "0 < price * (1 - band / 100)" and up: "0 < price * (1 + band / 100)"
      using assms(1) by simp_all
    obtain l where l: "priceToTick (price * (1 - band / 100)) s Floor = Inr l"
      using lp by (simp add: priceToTick_def Let_def)
    obtain u where u: "priceToTick (price * (1 + band / 100)) s Ceil = Inr u"
      using up by (simp add: priceToTick_def Let_def)
    have "computeNewTickRange price band s =
            (if l < u then Inr (l, u) else Inl (InvalidTickRange l u))"
      by (simp add: computeNewTickRange_def Let_def l u)
    with l u show ?thesis by blast
  qed
  have outside: "computeNewTickRange price band s = Inl PriceNotPositive"
    if band: "band \<le> - 100 \<or> 100 \<le> band"
  proof (cases "100 \<le> band")
    case True
    then have "1 - band / 100 \<le> 0" by simp
    then have "price * (1 - band / 100) \<le> 0"
      using assms(1) by (simp add: mult_le_0_iff)
    then have "priceToTick (price * (1 - band / 100)) s Floor = Inl PriceNotPositive"
      by (simp add: priceToTick_def)
    then show ?thesis by (simp add: computeNewTickRange_def Let_def)
  next
    case False
    with band have "band \<le> - 100" by simp
    then have "1 + band / 100 \<le> 0" by simp
    then have "price * (1 + band / 100) \<le> 0"
      using assms(1) by (simp add: mult_le_0_iff)
    then have hi: "priceToTick (price * (1 + band / 100)) s Ceil = Inl PriceNotPositive"
      by (simp add: priceToTick_def)
    show ?thesis
    proof (cases "priceToTick (price * (1 - band / 100)) s Floor")
      case (Inl e)
      then have "e = PriceNotPositive"
        by (simp add: priceToTick_def Let_def split: if_splits)
      with Inl show ?thesis by (simp add: computeNewTickRange_def Let_def)
    next
      case (Inr l)
      with hi show ?thesis by (simp add: computeNewTickRange_def Let_def)
    qed
  qed
  from inside outside computeNewTickRange_ordered [of price band s] show ?thesis
    by blast
qed

text \<open>The price 1 with the band 1.5% and spacing 10 gives the range from -160 to 150.\<close>

theorem computeNewTickRange_cases_witness:
  "(0::real) < 1 \<and> (0::int) < 10 \<and> (- 100::real) < 3 / 2 \<and> (3 / 2::real) < 100
   \<and> priceToTick (1 * (1 - (3 / 2) / 100)) 10 Floor = Inr (- 160)
   \<and> priceToTick (1 * (1 + (3 / 2) / 100)) 10 Ceil = Inr 150
   \<and> computeNewTickRange 1 (3 / 2) 10 = Inr (- 160, 150)"
proof -
  have p: "(0::real) < 1" "(0::int) < 10" by simp_all
  from computeNewTickRange_cases [OF p, of "3 / 2"]
  have "\<forall>l u. computeNewTickRange 1 (3 / 2) 10 = Inr (l, u) \<longrightarrow>
             l < u
           \<and> priceToTick (1 * (1 - (3 / 2) / 100)) 10 Floor = Inr l
           \<and> priceToTick (1 * (1 + (3 / 2) / 100)) 10 Ceil = Inr u"
    by (rule conjunct2 [THEN conjunct2])
  with sample_range
  have "priceToTick (1 * (1 - (3 / 2) / 100)) 10 Floor = Inr (- 160)
      \<and> priceToTick (1 * (1 + (3 / 2) / 100)) 10 Ceil = Inr 150"
    by blast
  with sample_range p show ?thesis
    by (intro conjI) simp_all
qed

text \<open>
  Claim C2 as it is written fails for a band of 100 percent: the lower band price is 0,
  \<open>priceToTick\<close> throws, so there is no aligned lower bound and the failure is not the
  invalid-range error.
\<close>

theorem computeNewTickRange_band_counterexample:
  "(0::real) < 1 \<and> (0::int) < 1
   \<and> priceToTick (1 * (1 - 100 / 100)) 1 Floor = Inl PriceNotPositive
   \<and> computeNewTickRange 1 100 1 = Inl PriceNotPositive"
  by (simp add: computeNewTickRange_def priceToTick_def)

section \<open>Properties of the rebalance decision\<close>

lemma centred_drift: "driftPct 1 (- 200) 200 = 0"
  by (simp add: driftPct_def centerTick_def tickToPrice_zero)

lemma skewed_drift: "driftPct 1 (- 100) 300 < - (1 / 2)"
proof -
  define c where "c = TICK_BASE ^ 100"
  have c: "1 + 100 / 10000 \<le> c"
    using tick_power_lower [of 100] by (simp add: c_def)
  then have pos: "0 < c" by simp
  have centre: "centerTick (- 100) 300 = 100"
    by (simp add: centerTick_def)
  have price: "tickToPrice 100 = c"
    using tickToPrice_nat [of 100] by (simp add: c_def)
  have "driftPct 1 (- 100) 300 = (1 - c) / c * 100"
    by (simp add: driftPct_def centre price)
  also have "\<dots> < - (1 / 2)"
    using c pos by (simp add: field_simps)
  finally show ?thesis .
qed

text \<open>
  Claim C1, as amended. For every pool state, position state and config: when the current
  tick is outside \<open>[tickLower, tickUpper]\<close>, whatever the drift is, \<open>evaluateStrategy\<close>
  computes \<open>computeNewTickRange currentPrice priceBandPct tickSpacing\<close> and, when that
  succeeds, returns the decision with \<open>shouldRebalance = True\<close>, the trigger
  \<open>price_out_of_range\<close> and that range; when the tick is inside and the absolute drift is
  above \<open>driftTriggerPct\<close>, it does the same with the trigger \<open>drift_exceeded\<close>; in both
  cases, when \<open>computeNewTickRange\<close> fails, \<open>evaluateStrategy\<close> fails with the same error and
  returns no decision. Otherwise it returns \<open>shouldRebalance = False\<close> and the trigger
  \<open>none\<close>, with no new range.
\<close>

theorem evaluateStrategy_cases:
  "(currentTick pool < tickLower pos \<or> tickUpper pos < currentTick pool \<longrightarrow>
      (case computeNewTickRange (currentPrice pool) (priceBandPct cfg) (tickSpacing pool) of
         Inl e \<Rightarrow> evaluateStrategy pool pos cfg = Inl e
       | Inr r \<Rightarrow>
           evaluateStrategy pool pos cfg =
             Inr \<lparr>shouldRebalance = True, trigger = price_out_of_range,
                  currentDriftPct = driftPct (currentPrice pool) (tickLower pos) (tickUpper pos),
                  newTickLower = Some (fst r), newTickUpper = Some (snd r),
                  details = TickOutside (currentTick pool) (tickLower pos) (tickUpper pos)\<rparr>
           \<and> fst r < snd r))
   \<and> (tickLower pos \<le> currentTick pool \<and> currentTick pool \<le> tickUpper pos
       \<and> driftTriggerPct cfg < \<bar>driftPct (currentPrice pool) (tickLower pos) (tickUpper pos)\<bar> \<longrightarrow>
      (case computeNewTickRange (currentPrice pool) (priceBandPct cfg) (tickSpacing pool) of
         Inl e \<Rightarrow> evaluateStrategy pool pos cfg = Inl e
       | Inr r \<Rightarrow>
           evaluateStrategy pool pos cfg =
             Inr \<lparr>shouldRebalance = True, trigger = drift_exceeded,
                  currentDriftPct = driftPct (currentPrice pool) (tickLower pos) (tickUpper pos),
                  newTickLower = Some (fst r), newTickUpper = Some (snd r),
                  details = DriftExceeds
                              (driftPct (currentPrice pool) (tickLower pos) (tickUpper pos))
                              (driftTriggerPct cfg)\<rparr>
           \<and> fst r < snd r))
   \<and> (tickLower pos \<le> currentTick pool \<and> currentTick pool \<le> tickUpper pos
       \<and> \<bar>driftPct (currentPrice pool) (tickLower pos) (tickUpper pos)\<bar> \<le> driftTriggerPct cfg \<longrightarrow>
      evaluateStrategy pool pos cfg =
        Inr \<lparr>shouldRebalance = False, trigger = none,
             currentDriftPct = driftPct (currentPrice pool) (tickLower pos) (tickUpper pos),
             newTickLower = None, newTickUpper = None,
             details = InRangeDrift (driftPct (currentPrice pool) (tickLower pos) (tickUpper pos))\<rparr>)"
proof (cases "computeNewTickRange (currentPrice pool) (priceBandPct cfg) (tickSpacing pool)")
  case (Inl e)
  then show ?thesis
    by (simp add: evaluateStrategy_def isTickInRange_def Let_def not_le not_less)
next
  case (Inr r)
  obtain l u where r: "r = (l, u)" by (cases r)
  from Inr r have "l < u"
    using computeNewTickRange_ordered(1) by blast
  with Inr r show ?thesis
    by (simp add: evaluateStrategy_def isTickInRange_def Let_def not_le not_less)
qed

text \<open>
  The pool at tick 0 and price 1 with the default band and drift trigger: a position
  above the tick gives \<open>price_out_of_range\<close>, a position that holds the tick 1% below its
  centre gives \<open>drift_exceeded\<close>, both with the new range from -160 to 150, and a position
  centred on the tick gives no rebalance.
\<close>

theorem evaluateStrategy_cases_witness:
  "currentTick sample_pool < tickLower upper_position
   \<and> evaluateStrategy sample_pool upper_position live_config =
       Inr \<lparr>shouldRebalance = True, trigger = price_out_of_range,
            currentDriftPct = driftPct 1 100 500,
            newTickLower = Some (- 160), newTickUpper = Some 150,
            details = TickOutside 0 100 500\<rparr>
   \<and> driftTriggerPct live_config < \<bar>driftPct 1 (- 100) 300\<bar>
   \<and> evaluateStrategy sample_pool skewed_position live_config =
       Inr \<lparr>shouldRebalance = True, trigger = drift_exceeded,
            currentDriftPct = driftPct 1 (- 100) 300,
            newTickLower = Some (- 160), newTickUpper = Some 150,
            details = DriftExceeds (driftPct 1 (- 100) 300) (1 / 2)\<rparr>
   \<and> evaluateStrategy sample_pool centred_position live_config =
       Inr \<lparr>shouldRebalance = False, trigger = none,
            currentDriftPct = 0,
            newTickLower = None, newTickUpper = None,
            details = InRangeDrift 0\<rparr>"
proof -
  have range: "computeNewTickRange 1 (3 / 2) 10 = Inr (- 160, 150)"
    by (rule sample_range)
  have hyp: "currentTick sample_pool < tickLower upper_position"
    by (simp add: sample_pool_def upper_position_def centred_position_def)
  have out: "evaluateStrategy sample_pool upper_position live_config =
       Inr \<lparr>shouldRebalance = True, trigger = price_out_of_range,
            currentDriftPct = driftPct 1 100 500,
            newTickLower = Some (- 160), newTickUpper = Some 150,
            details = TickOutside 0 100 500\<rparr>"
    using evaluateStrategy_cases [of sample_pool upper_position live_config]
    by (simp add: sample_pool_def upper_position_def centred_position_def live_config_def range)
  have trig: "driftTriggerPct live_config < \<bar>driftPct 1 (- 100) 300\<bar>"
    using skewed_drift by (simp add: live_config_def)
  have drifted: "evaluateStrategy sample_pool skewed_position live_config =
       Inr \<lparr>shouldRebalance = True, trigger = drift_exceeded,
            currentDriftPct = driftPct 1 (- 100) 300,
            newTickLower = Some (- 160), newTickUpper = Some 150,
            details = DriftExceeds (driftPct 1 (- 100) 300) (1 / 2)\<rparr>"
    using evaluateStrategy_cases [of sample_pool skewed_position live_config] trig
    by (simp add: sample_pool_def skewed_position_def centred_position_def live_config_def range)
  have centred: "evaluateStrategy sample_pool centred_position live_config =
       Inr \<lparr>shouldRebalance = False, trigger = none,
            currentDriftPct = 0,
            newTickLower = None, newTickUpper = None,
            details = InRangeDrift 0\<rparr>"
    using evaluateStrategy_cases [of sample_pool centred_position live_config]
    by (simp add: sample_pool_def centred_position_def live_config_def centred_drift)
  from hyp out trig drifted centred show ?thesis by (intro conjI)
qed

text \<open>
  Claim C1 as it is written fails for a band of 100 percent: the tick is outside the
  range of the position, and no decision is returned, because the range computation
  throws.
\<close>

theorem evaluateStrategy_band_counterexample:
  "currentTick sample_pool < tickLower upper_position
   \<and> evaluateStrategy sample_pool upper_position (live_config\<lparr>priceBandPct := 100\<rparr>)
       = Inl PriceNotPositive"
  by (simp add: evaluateStrategy_def isTickInRange_def Let_def sample_pool_def
        upper_position_def centred_position_def live_config_def
        computeNewTickRange_def priceToTick_def)

end
